theory Spec2Isabelle
  imports Complex_Main "HOL-Library.Sublist"
begin

section \<open>JavaScript values\<close>

text \<open>
  The scripts read JSON files and JSON responses and pass the parsed values around
  untyped. A parsed value is a \<open>json\<close>; \<open>JUndefined\<close> is JavaScript's
  \<open>undefined\<close>, which no parser produces but every missing property reads as.
  Numbers are the values the parser produced, as reals.
\<close>

datatype json =
    JUndefined
  | JNull
  | JBool bool
  | JNum real
  | JStr string
  | JArr "json list"
  | JObj "(string \<times> json) list"

text \<open>Truthiness, as \<open>if (v)\<close>, \<open>!v\<close>, \<open>a || b\<close> and \<open>a && b\<close> test it.\<close>

fun truthy :: "json \<Rightarrow> bool" where
  "truthy JUndefined = False"
| "truthy JNull = False"
| "truthy (JBool b) = b"
| "truthy (JNum x) = (x \<noteq> 0)"
| "truthy (JStr s) = (s \<noteq> [])"
| "truthy (JArr xs) = True"
| "truthy (JObj kvs) = True"

fun nullish :: "json \<Rightarrow> bool" where
  "nullish JUndefined = True"
| "nullish JNull = True"
| "nullish v = False"

text \<open>
  \<open>v.k\<close> for the keys the scripts read (none of them a built-in property of
  strings, numbers, booleans or arrays): the stored value of an object, \<open>undefined\<close>
  otherwise. Reading a property of \<open>null\<close> or \<open>undefined\<close> throws a TypeError;
  \<open>get_prop\<close> is the access with that check, \<open>prop_of\<close> the access where the base is known
  not to be nullish.
\<close>

fun prop_of :: "json \<Rightarrow> string \<Rightarrow> json" where
  "prop_of (JObj kvs) k = (case map_of kvs k of None \<Rightarrow> JUndefined | Some v \<Rightarrow> v)"
| "prop_of v k = JUndefined"

datatype error =
    Rejected string
  | SyntaxError
  | TypeError
  | RangeError

text \<open>
  \<open>e.message\<close>: the text a rejected fetch carries (\<open>Timeout\<close>, \<open>HTTP 500: ...\<close>,
  a socket error). The engine's wording for its own errors is not modelled; the class
  name stands for it.
\<close>

fun error_message :: "error \<Rightarrow> string" where
  "error_message (Rejected m) = m"
| "error_message SyntaxError = ''SyntaxError''"
| "error_message TypeError = ''TypeError''"
| "error_message RangeError = ''RangeError''"

definition get_prop :: "json \<Rightarrow> string \<Rightarrow> error + json" where
  "get_prop v k = (if nullish v then Inl TypeError else Inr (prop_of v k))"

text \<open>
  A file read with \<open>JSON.parse(fs.readFileSync(path, 'utf8'))\<close>: absent (the read
  throws), present with a text that is not JSON (the parse throws), or present with
  the value its text parses to.
\<close>

datatype json_file = NoFile | NotJSON | JSONText json

section \<open>Escalation check (escalation-check.js)\<close>

definition ESCALATION_THRESHOLD_MS :: int where
  "ESCALATION_THRESHOLD_MS = 15 * 60 * 1000"

definition EMERGENCY_CONTACT :: string where
  "EMERGENCY_CONTACT = ''ashuppal@gmail.com''"

definition EMERGENCY_CONTACT_NAME :: string where
  "EMERGENCY_CONTACT_NAME = ''Ash''"

text \<open>
  The three shapes the script prints. A number that is NaN in the script (the minutes
  computed from an \<open>alertSentAt\<close> that is no date) is \<open>None\<close>.
\<close>

datatype esc_output =
    ActionNone (reason: string)
  | ActionEscalate (alert: json) (alertSentAt: json) (minutesPending: "int option")
      (contact: string) (contactName: string)
  | ActionWaiting (alert: json) (minutesPending: "int option") (minutesRemaining: "int option")

datatype esc_action = none | escalate | waiting

fun action :: "esc_output \<Rightarrow> esc_action" where
  "action (ActionNone r) = none"
| "action (ActionEscalate a s m c n) = escalate"
| "action (ActionWaiting a m r) = waiting"

text \<open>
  What the script can see and change: the state file, the clock (\<open>Date.now()\<close>, in
  milliseconds) and the lines printed so far.
\<close>

record esc_world =
  stateFile :: json_file
  now :: int
  stdout :: "esc_output list"

definition console_log :: "esc_output \<Rightarrow> esc_world \<Rightarrow> esc_world" where
  "console_log out w = w\<lparr>stdout := stdout w @ [out]\<rparr>"

text \<open>\<open>Math.round(ms / 60000)\<close> (halves round up) and \<open>Math.ceil(ms / 60000)\<close>.\<close>

definition round_minutes :: "int \<Rightarrow> int" where
  "round_minutes ms = \<lfloor>real_of_int ms / 60000 + 1 / 2\<rfloor>"

definition ceil_minutes :: "int \<Rightarrow> int" where
  "ceil_minutes ms = \<lceil>real_of_int ms / 60000\<rceil>"

text \<open>
  \<open>run()\<close>. \<open>getTime v\<close> is \<open>new Date(v).getTime()\<close>, \<open>None\<close> when it is NaN
  (an invalid date): the date parser belongs to the engine and is a parameter. The
  property reads on \<open>state\<close> are outside the \<open>try\<close>, so a state file holding
  \<open>null\<close> ends the script with an uncaught TypeError (\<open>Inl\<close>) and prints nothing.
  A comparison with NaN is false, so an unreadable \<open>alertSentAt\<close> takes the
  \<open>waiting\<close> branch.
\<close>

definition run :: "(json \<Rightarrow> int option) \<Rightarrow> esc_world \<Rightarrow> error + esc_world" where
  "run getTime w =
     (case stateFile w of
        NoFile \<Rightarrow> Inr (console_log (ActionNone ''no state file'') w)
      | NotJSON \<Rightarrow> Inr (console_log (ActionNone ''no state file'') w)
      | JSONText state \<Rightarrow>
          if nullish state then Inl TypeError
          else if \<not> truthy (prop_of state ''pendingAlert'') \<or> \<not> truthy (prop_of state ''alertSentAt'')
          then Inr (console_log (ActionNone ''no pending alert'') w)
          else if truthy (prop_of state ''acknowledgedAt'')
          then Inr (console_log (ActionNone ''already acknowledged'') w)
          else
            let alertTime = getTime (prop_of state ''alertSentAt'');
                elapsed = map_option (\<lambda>t. now w - t) alertTime;
                elapsedMinutes = map_option round_minutes elapsed
            in if (case elapsed of None \<Rightarrow> False | Some e \<Rightarrow> e \<ge> ESCALATION_THRESHOLD_MS)
               then Inr (console_log
                      (ActionEscalate (prop_of state ''pendingAlert'') (prop_of state ''alertSentAt'')
                         elapsedMinutes EMERGENCY_CONTACT EMERGENCY_CONTACT_NAME) w)
               else
                 let remaining = map_option (\<lambda>e. ceil_minutes (ESCALATION_THRESHOLD_MS - e)) elapsed
                 in Inr (console_log
                      (ActionWaiting (prop_of state ''pendingAlert'') elapsedMinutes remaining) w))"

section \<open>The engine and the network\<close>

text \<open>
  Library functions of the JavaScript engine that the scripts call and this theory does
  not define; the definitions below take them as a parameter.
  \<^item> \<open>Date_getTime v\<close> is \<open>new Date(v).getTime()\<close> in milliseconds, \<open>None\<close> for NaN;
  \<^item> \<open>toISOString t\<close> renders a valid time value;
  \<^item> \<open>StringToNumber v\<close> is the number a string, array or object converts to in a
    numeric comparison, \<open>None\<close> for NaN;
  \<^item> \<open>ToString v\<close> is the text a value has inside a template literal or a string
    concatenation;
  \<^item> \<open>toLowerCase s\<close> is \<open>s.toLowerCase()\<close>, which lowers every cased letter that
    the engine's Unicode tables know.
  Strings are lists of characters, one \<open>char\<close> for one code unit of the JavaScript
  string; what is proved about titles and keys uses no property of the characters.
\<close>

record engine =
  Date_getTime :: "json \<Rightarrow> int option"
  toISOString :: "int \<Rightarrow> string"
  StringToNumber :: "json \<Rightarrow> real option"
  ToString :: "json \<Rightarrow> string"
  toLowerCase :: "string \<Rightarrow> string"

fun ToNumber :: "engine \<Rightarrow> json \<Rightarrow> real option" where
  "ToNumber e JUndefined = None"
| "ToNumber e JNull = Some 0"
| "ToNumber e (JBool b) = Some (if b then 1 else 0)"
| "ToNumber e (JNum x) = Some x"
| "ToNumber e v = StringToNumber e v"

text \<open>\<open>a > c\<close> and \<open>a >= c\<close> against a numeric literal: false when \<open>a\<close> is NaN.\<close>

definition js_gt :: "engine \<Rightarrow> json \<Rightarrow> real \<Rightarrow> bool" where
  "js_gt e a c = (case ToNumber e a of None \<Rightarrow> False | Some x \<Rightarrow> x > c)"

definition js_ge :: "engine \<Rightarrow> json \<Rightarrow> real \<Rightarrow> bool" where
  "js_ge e a c = (case ToNumber e a of None \<Rightarrow> False | Some x \<Rightarrow> x \<ge> c)"

text \<open>Sequencing of steps that may throw: the first error ends the \<open>try\<close> block.\<close>

definition and_then :: "error + 'a \<Rightarrow> ('a \<Rightarrow> error + 'b) \<Rightarrow> error + 'b" where
  "and_then r f = (case r of Inl e \<Rightarrow> Inl e | Inr x \<Rightarrow> f x)"

fun map_throwing :: "('a \<Rightarrow> error + 'b) \<Rightarrow> 'a list \<Rightarrow> error + 'b list" where
  "map_throwing f [] = Inr []"
| "map_throwing f (x # xs) =
     and_then (f x) (\<lambda>y. and_then (map_throwing f xs) (\<lambda>ys. Inr (y # ys)))"

fun filter_throwing :: "('a \<Rightarrow> error + bool) \<Rightarrow> 'a list \<Rightarrow> error + 'a list" where
  "filter_throwing p [] = Inr []"
| "filter_throwing p (x # xs) =
     and_then (p x) (\<lambda>b. and_then (filter_throwing p xs) (\<lambda>ys. Inr (if b then x # ys else ys)))"

text \<open>
  An RSS item as \<open>checkLocalNews\<close> sees it: the four strings its regular expressions
  capture (the empty string where one does not match).
\<close>

record rss_item =
  item_title :: string
  item_desc :: string
  item_link :: string
  item_pubDate :: string

text \<open>
  A response text, by what the scripts extract from it: the value \<open>JSON.parse\<close> gives
  (\<open>None\<close> when it throws a SyntaxError) and the items that the item expression of
  \<open>checkLocalNews\<close> finds in it, in order.
\<close>

record body =
  as_json :: "json option"
  as_items :: "rss_item list"

text \<open>
  A request, by the parameters its URL is built from, and what the promise of the
  \<open>fetch\<close> helper does with it: it rejects with a message (a socket error, \<open>Timeout\<close>
  after ten seconds, and in safety-check.js \<open>HTTP status: text\<close> for a status outside
  2xx) or resolves with the text. The earthquake query carries latitude, longitude,
  \<open>maxradiuskm\<close>, \<open>starttime\<close> (in milliseconds) and \<open>minmagnitude\<close> when given.
\<close>

datatype request =
    NWSAlertsActive json json
  | USGSQuery json json real int "real option"
  | OpenMeteoAirQuality json json
  | Feed string
  | WeatherGovRoot

datatype response = Reject string | Resolve body

definition JSON_parse :: "body \<Rightarrow> error + json" where
  "JSON_parse b = (case as_json b of None \<Rightarrow> Inl SyntaxError | Some v \<Rightarrow> Inr v)"

section \<open>Safety check (safety-check.js)\<close>

text \<open>
  \<open>CONFIG.monitoring?.newsFeeds\<close>, \<open>CONFIG.monitoring?.locationKeywords\<close> and
  \<open>CONFIG.monitoring?.earthquakeRadiusKm\<close>, each \<open>None\<close> when \<open>monitoring\<close> or the
  key is missing. The configuration is taken as well-typed: lists of strings and a number.
\<close>

record config =
  newsFeeds :: "string list option"
  locationKeywords :: "string list option"
  earthquakeRadiusKm :: "real option"

datatype verdict = ALL_CLEAR | ALERTS_FOUND

record report_location =
  lat :: json
  lon :: json
  updatedAt :: json

record check_set =
  nws :: json
  usgs :: json
  aqi :: json
  news :: json

record safety_report =
  timestamp :: string
  location :: report_location
  status :: verdict
  checks :: check_set

text \<open>
  The world of one run. All calls of \<open>Date.now()\<close> and \<open>new Date()\<close> within a run read
  the same instant \<open>clock\<close>. \<open>fetched\<close> lists the requests issued so far, \<open>logs\<close>
  the log files by name, \<open>printed\<close> the reports written to standard output.
\<close>

record world =
  CONFIG :: config
  locationFile :: json_file
  overrideFile :: json_file
  clock :: int
  upstream :: "request \<Rightarrow> response"
  fetched :: "request list"
  logs :: "string \<rightharpoonup> safety_report"
  printed :: "safety_report list"

definition fetch :: "request \<Rightarrow> world \<Rightarrow> (error + body) \<times> world" where
  "fetch url w =
     ((case upstream w url of Reject m \<Rightarrow> Inl (Rejected m) | Resolve b \<Rightarrow> Inr b),
      w\<lparr>fetched := fetched w @ [url]\<rparr>)"

text \<open>The object an adapter returns, with the adapter's extra keys after the three.\<close>

definition check_result :: "string \<Rightarrow> bool \<Rightarrow> json list \<Rightarrow> (string \<times> json) list \<Rightarrow> json" where
  "check_result src ok_flag alerts extra =
     JObj ([(''source'', JStr src), (''ok'', JBool ok_flag), (''alerts'', JArr alerts)] @ extra)"

text \<open>The \<open>catch\<close> branch of the three API adapters.\<close>

definition failed_open :: "string \<Rightarrow> error \<Rightarrow> json" where
  "failed_open src e =
     JObj [(''source'', JStr src), (''ok'', JBool True),
           (''error'', JStr (error_message e)), (''alerts'', JArr [])]"

text \<open>
  \<open>(data.features || [])\<close> followed by \<open>.map\<close> or \<open>.filter\<close>: \<open>data\<close> must not be
  nullish, and a truthy \<open>features\<close> that is no array has neither method.
\<close>

definition features_of :: "json \<Rightarrow> error + json list" where
  "features_of data =
     (if nullish data then Inl TypeError
      else let fs = prop_of data ''features'' in
        if \<not> truthy fs then Inr []
        else (case fs of JArr xs \<Rightarrow> Inr xs | _ \<Rightarrow> Inl TypeError))"

text \<open>\<open>f.properties\<close> read for one of its keys: both \<open>f\<close> and the properties must exist.\<close>

definition properties_of :: "json \<Rightarrow> error + json" where
  "properties_of f =
     and_then (get_prop f ''properties'') (\<lambda>p. if nullish p then Inl TypeError else Inr p)"

text \<open>\<open>d?.slice(0, 500)\<close>: strings and arrays have \<open>slice\<close>, other values do not.\<close>

fun optional_slice_500 :: "json \<Rightarrow> error + json" where
  "optional_slice_500 JUndefined = Inr JUndefined"
| "optional_slice_500 JNull = Inr JUndefined"
| "optional_slice_500 (JStr s) = Inr (JStr (take 500 s))"
| "optional_slice_500 (JArr xs) = Inr (JArr (take 500 xs))"
| "optional_slice_500 v = Inl TypeError"

definition nws_alert :: "json \<Rightarrow> error + json" where
  "nws_alert f =
     and_then (properties_of f) (\<lambda>p.
     and_then (optional_slice_500 (prop_of p ''description'')) (\<lambda>d.
       Inr (JObj [(''event'', prop_of p ''event''),
                  (''severity'', prop_of p ''severity''),
                  (''headline'', prop_of p ''headline''),
                  (''description'', d),
                  (''expires'', prop_of p ''expires'')])))"

definition checkNWSAlerts :: "json \<Rightarrow> json \<Rightarrow> world \<Rightarrow> json \<times> world" where
  "checkNWSAlerts la lo w =
     (let (r, w') = fetch (NWSAlertsActive la lo) w in
      (case and_then r (\<lambda>b. and_then (JSON_parse b) (\<lambda>data.
              and_then (features_of data) (map_throwing nws_alert))) of
         Inr alerts \<Rightarrow> check_result ''NWS'' (length alerts = 0) alerts []
       | Inl e \<Rightarrow> failed_open ''NWS'' e,
       w'))"

text \<open>
  \<open>checkEarthquakes\<close>: the radius is \<open>CONFIG.monitoring?.earthquakeRadiusKm || 100\<close> (a
  configured 0 is falsy), the window starts 24 hours before now. The filter keeps a
  feature when \<open>f.properties.mag >= 2.5\<close>; \<open>toISOString\<close> throws a RangeError on an
  invalid date.
\<close>

definition radiusKm :: "config \<Rightarrow> real" where
  "radiusKm c = (case earthquakeRadiusKm c of None \<Rightarrow> 100 | Some r \<Rightarrow> if r = 0 then 100 else r)"

definition notable :: "engine \<Rightarrow> json \<Rightarrow> error + bool" where
  "notable e f = and_then (properties_of f) (\<lambda>p. Inr (js_ge e (prop_of p ''mag'') 2.5))"

definition quake_alert :: "engine \<Rightarrow> json \<Rightarrow> error + json" where
  "quake_alert e f =
     and_then (properties_of f) (\<lambda>p.
       case Date_getTime e (prop_of p ''time'') of
         None \<Rightarrow> Inl RangeError
       | Some t \<Rightarrow>
           Inr (JObj [(''magnitude'', prop_of p ''mag''),
                      (''place'', prop_of p ''place''),
                      (''time'', JStr (toISOString e t)),
                      (''distance'', prop_of p ''place'')]))"

definition checkEarthquakes :: "engine \<Rightarrow> json \<Rightarrow> json \<Rightarrow> world \<Rightarrow> json \<times> world" where
  "checkEarthquakes e la lo w =
     (let (r, w') = fetch (USGSQuery la lo (radiusKm (CONFIG w)) (clock w - 86400000) None) w in
      (case and_then r (\<lambda>b. and_then (JSON_parse b) (\<lambda>data.
              and_then (features_of data) (\<lambda>fs.
              and_then (filter_throwing (notable e) fs) (map_throwing (quake_alert e))))) of
         Inr quakes \<Rightarrow> check_result ''USGS'' (length quakes = 0) quakes []
       | Inl err \<Rightarrow> failed_open ''USGS'' err,
       w'))"

text \<open>
  \<open>checkAirQuality\<close>: \<open>data.current?.us_aqi || 0\<close>, then the three thresholds; only the
  two upper tiers set \<open>concern\<close>.
\<close>

definition optional_prop :: "json \<Rightarrow> string \<Rightarrow> json" where
  "optional_prop v k = (if nullish v then JUndefined else prop_of v k)"

definition air_quality :: "engine \<Rightarrow> json \<Rightarrow> error + json" where
  "air_quality e data =
     and_then (get_prop data ''current'') (\<lambda>cur.
       let us = optional_prop cur ''us_aqi'';
           aqi_value = (if truthy us then us else JNum 0);
           (level, concern) =
             (if js_gt e aqi_value 150 then (''Unhealthy'', True)
              else if js_gt e aqi_value 100 then (''Unhealthy for Sensitive Groups'', True)
              else if js_gt e aqi_value 50 then (''Moderate'', False)
              else (''Good'', False))
       in Inr (check_result ''AirQuality'' (\<not> concern)
                 (if concern
                  then [JObj [(''aqi'', aqi_value), (''level'', JStr level),
                              (''pm25'', optional_prop cur ''pm2_5'')]]
                  else [])
                 [(''current'', JObj [(''aqi'', aqi_value), (''level'', JStr level)])]))"

definition checkAirQuality :: "engine \<Rightarrow> json \<Rightarrow> json \<Rightarrow> world \<Rightarrow> json \<times> world" where
  "checkAirQuality e la lo w =
     (let (r, w') = fetch (OpenMeteoAirQuality la lo) w in
      (case and_then r (\<lambda>b. and_then (JSON_parse b) (air_quality e)) of
         Inr res \<Rightarrow> res
       | Inl err \<Rightarrow> failed_open ''AirQuality'' err,
       w'))"

subsection \<open>Local news\<close>

fun str_includes :: "string \<Rightarrow> string \<Rightarrow> bool" where
  "str_includes [] kw = (kw = [])"
| "str_includes (c # cs) kw = (prefix kw (c # cs) \<or> str_includes cs kw)"

fun split_on :: "char \<Rightarrow> string \<Rightarrow> string list" where
  "split_on d [] = [[]]"
| "split_on d (c # cs) =
     (if c = d then [] # split_on d cs
      else (case split_on d cs of [] \<Rightarrow> [[c]] | p # ps \<Rightarrow> (c # p) # ps))"

text \<open>\<open>feedUrl.split('/')[2]\<close>: the host of a URL, \<open>undefined\<close> with fewer than three parts.\<close>

definition feed_host :: "string \<Rightarrow> json" where
  "feed_host feedUrl =
     (let parts = split_on (CHR ''/'') feedUrl
      in if 2 < length parts then JStr (parts ! 2) else JUndefined)"

definition default_feeds :: "string list" where
  "default_feeds =
     [''https://www.king5.com/feeds/syndication/rss/news/local'',
      ''https://www.seattletimes.com/seattle-news/feed/'']"

definition concerningKeywords :: "string list" where
  "concerningKeywords =
     [''evacuate'', ''evacuation order'', ''shelter in place'',
      ''active shooter'', ''shooting reported'', ''shots fired'',
      ''wildfire'', ''fire spreading'', ''structure fire'',
      ''flash flood'', ''flood warning'', ''flooding'',
      ''landslide'', ''mudslide'', ''road closed'',
      ''gas leak'', ''hazmat'', ''chemical spill'',
      ''police standoff'', ''lockdown'', ''manhunt'',
      ''amber alert'', ''silver alert'', ''emergency alert'',
      ''power outage'', ''outages reported'']"

definition excludeKeywords :: "string list" where
  "excludeKeywords =
     [''verdict'', ''sentenced'', ''convicted'', ''trial'', ''lawsuit'', ''sued'',
      ''years ago'', ''last year'', ''memorial'', ''anniversary'',
      ''investigation concludes'', ''report finds'', ''study shows'']"

definition default_locationKeywords :: "string list" where
  "default_locationKeywords = [''seattle'', ''king county'']"

record news_alert =
  title :: string
  source :: json
  link :: string
  age :: string

definition news_alert_json :: "news_alert \<Rightarrow> json" where
  "news_alert_json a =
     JObj [(''title'', JStr (title a)), (''source'', source a),
           (''link'', JStr (link a)), (''age'', JStr (age a))]"

definition round_hours :: "int \<Rightarrow> int" where
  "round_hours ms = \<lfloor>real_of_int ms / 3600000 + 1 / 2\<rfloor>"

text \<open>
  The body of the loop over the items of one feed: the alert pushed for an item that is
  concerning, local, recent and not historical; \<open>None\<close> for an item that is skipped.
\<close>

definition item_alert :: "engine \<Rightarrow> string list \<Rightarrow> int \<Rightarrow> string \<Rightarrow> rss_item \<Rightarrow> news_alert option" where
  "item_alert e locKeywords t feedUrl item =
     (let content = toLowerCase e (item_title item @ '' '' @ item_desc item);
          isConcerning = list_ex (str_includes content) concerningKeywords;
          isHistorical = list_ex (str_includes content) excludeKeywords;
          isLocal = list_ex (str_includes content) locKeywords;
          pubTime = Date_getTime e (JStr (item_pubDate item));
          isRecent = (case pubTime of None \<Rightarrow> False | Some p \<Rightarrow> t - p < 86400000)
      in if isConcerning \<and> isLocal \<and> isRecent \<and> \<not> isHistorical
         then (case pubTime of
                 None \<Rightarrow> None
               | Some p \<Rightarrow>
                   Some \<lparr>title = take 200 (item_title item),
                         source = feed_host feedUrl,
                         link = item_link item,
                         age = ToString e (JNum (of_int (round_hours (t - p)))) @ ''h ago''\<rparr>)
         else None)"

text \<open>
  The loop over the feeds, one after the other: a feed whose fetch rejects contributes
  nothing, the others the alerts of their first 15 items.
\<close>

fun scan_feeds :: "engine \<Rightarrow> string list \<Rightarrow> string list \<Rightarrow> world \<Rightarrow> news_alert list \<times> world" where
  "scan_feeds e locKeywords [] w = ([], w)"
| "scan_feeds e locKeywords (feedUrl # feeds) w =
     (let (r, w1) = fetch (Feed feedUrl) w;
          found = (case r of
                     Inl err \<Rightarrow> []
                   | Inr xml \<Rightarrow>
                       List.map_filter (item_alert e locKeywords (clock w) feedUrl)
                         (take 15 (as_items xml)));
          (more, w2) = scan_feeds e locKeywords feeds w1
      in (found @ more, w2))"

text \<open>
  The filter with the set \<open>seen\<close>: an alert is kept when the lower-cased first 50
  characters of its title have not been seen, and are then added to the set.
\<close>

definition dedupe_key :: "engine \<Rightarrow> news_alert \<Rightarrow> string" where
  "dedupe_key e a = toLowerCase e (take 50 (title a))"

fun dedupe :: "engine \<Rightarrow> string set \<Rightarrow> news_alert list \<Rightarrow> news_alert list" where
  "dedupe e seen [] = []"
| "dedupe e seen (a # as) =
     (if dedupe_key e a \<in> seen then dedupe e seen as
      else a # dedupe e (insert (dedupe_key e a) seen) as)"

text \<open>\<open>unique.slice(0, 5)\<close> of the deduplicated alerts: what the adapter reports.\<close>

definition surfaced :: "engine \<Rightarrow> news_alert list \<Rightarrow> news_alert list" where
  "surfaced e alerts = take 5 (dedupe e {} alerts)"

text \<open>The alerts of a list whose title has the key \<open>k\<close>.\<close>

definition with_key :: "engine \<Rightarrow> string \<Rightarrow> news_alert list \<Rightarrow> news_alert list" where
  "with_key e k alerts = filter (\<lambda>a. dedupe_key e a = k) alerts"

definition checkLocalNews :: "engine \<Rightarrow> json \<Rightarrow> json \<Rightarrow> world \<Rightarrow> json \<times> world" where
  "checkLocalNews e la lo w =
     (let feeds = (case newsFeeds (CONFIG w) of None \<Rightarrow> default_feeds | Some fs \<Rightarrow> fs);
          locKeywords = (case locationKeywords (CONFIG w) of
                           None \<Rightarrow> default_locationKeywords | Some ks \<Rightarrow> ks);
          (alerts, w') = scan_feeds e locKeywords feeds w;
          unique = dedupe e {} alerts
      in (check_result ''LocalNews'' (length unique = 0)
            (map news_alert_json (surfaced e alerts)) [],
          w'))"

definition searchBreakingNews :: "json \<Rightarrow> json \<Rightarrow> json" where
  "searchBreakingNews la lo =
     JObj [(''source'', JStr ''WebSearch''), (''ok'', JBool True), (''alerts'', JArr []),
           (''skipped'', JBool True)]"

subsection \<open>The run\<close>

text \<open>\<open>getLocation\<close>: the parsed location file, \<open>null\<close> when it cannot be read or parsed.\<close>

definition getLocation :: "world \<Rightarrow> json" where
  "getLocation w = (case locationFile w of JSONText v \<Rightarrow> v | _ \<Rightarrow> JNull)"

text \<open>
  \<open>getTestOverride\<close>: the parsed override file, \<open>null\<close> when it cannot be read or
  parsed, or holds \<open>null\<close> (the property read throws inside the \<open>try\<close>). An override
  whose \<open>_expiresAt\<close> is truthy and lies before now is deleted and not returned; a
  comparison with an invalid date is false. Deleting the file is taken to succeed (a
  failing \<open>unlinkSync\<close> is caught and gives \<open>null\<close> as well, with the file left). The
  notice written to standard error for a live override is left out.
\<close>

definition getTestOverride :: "engine \<Rightarrow> world \<Rightarrow> json \<times> world" where
  "getTestOverride e w =
     (case overrideFile w of
        JSONText override \<Rightarrow>
          if nullish override then (JNull, w)
          else if truthy (prop_of override ''_expiresAt'') \<and>
                  (case Date_getTime e (prop_of override ''_expiresAt'') of
                     None \<Rightarrow> False | Some t \<Rightarrow> t < clock w)
          then (JNull, w\<lparr>overrideFile := NoFile\<rparr>)
          else (override, w)
      | _ \<Rightarrow> (JNull, w))"

text \<open>\<open>if (testOverride) { if (testOverride.k) x = testOverride.k; }\<close> for one source.\<close>

definition apply_override :: "json \<Rightarrow> string \<Rightarrow> json \<Rightarrow> json" where
  "apply_override testOverride k real_result =
     (if truthy testOverride \<and> truthy (prop_of testOverride k)
      then prop_of testOverride k else real_result)"

text \<open>The name of the log file: the ISO time with \<open>:\<close> and \<open>.\<close> replaced, cut at 19.\<close>

definition log_name :: "string \<Rightarrow> string" where
  "log_name stamp =
     take 19 (map (\<lambda>c. if c = CHR '':'' \<or> c = CHR ''.'' then CHR ''-'' else c) stamp)
       @ ''_safety.json''"

datatype result =
    Failure (error: string) (failedAt: string)
  | Report safety_report

text \<open>
  \<open>runSafetyCheck\<close>. The four adapters start in the order of the array passed to
  \<open>Promise.all\<close> and share no state, so they are run here one after the other. The log
  entry is the report (its \<open>meta\<close> block, which repeats the file name and the URLs, is
  left out), and writing it is taken to succeed.
\<close>

definition runSafetyCheck :: "engine \<Rightarrow> world \<Rightarrow> result \<times> world" where
  "runSafetyCheck e w =
     (let loc = getLocation w in
      if \<not> truthy loc \<or> \<not> truthy (prop_of loc ''lat'') \<or> \<not> truthy (prop_of loc ''lon'')
      then (Failure ''No location data available'' (toISOString e (clock w)), w)
      else
        let la = prop_of loc ''lat'';
            lo = prop_of loc ''lon'';
            (testOverride, w1) = getTestOverride e w;
            (nws0, w2) = checkNWSAlerts la lo w1;
            (usgs0, w3) = checkEarthquakes e la lo w2;
            (aqi0, w4) = checkAirQuality e la lo w3;
            (news0, w5) = checkLocalNews e la lo w4;
            nws1 = apply_override testOverride ''nws'' nws0;
            usgs1 = apply_override testOverride ''usgs'' usgs0;
            aqi1 = apply_override testOverride ''aqi'' aqi0;
            news1 = apply_override testOverride ''news'' news0;
            allClear = (truthy (prop_of nws1 ''ok'') \<and> truthy (prop_of usgs1 ''ok'') \<and>
                        truthy (prop_of aqi1 ''ok'') \<and> truthy (prop_of news1 ''ok''));
            res = \<lparr>timestamp = toISOString e (clock w),
                   location = \<lparr>lat = la, lon = lo, updatedAt = prop_of loc ''receivedAt''\<rparr>,
                   status = (if allClear then ALL_CLEAR else ALERTS_FOUND),
                   checks = \<lparr>nws = nws1, usgs = usgs1, aqi = aqi1, news = news1\<rparr>\<rparr>;
            logFile = log_name (toISOString e (clock w))
        in (Report res, w5\<lparr>logs := (logs w5)(logFile \<mapsto> res), printed := printed w5 @ [res]\<rparr>))"

section \<open>Self-check adapters (self-check.js)\<close>

record sys_alert =
  type :: string
  severity :: string
  message :: json

definition sys_alert_json :: "sys_alert \<Rightarrow> json" where
  "sys_alert_json a =
     JObj [(''type'', JStr (type a)), (''severity'', JStr (severity a)), (''message'', message a)]"

text \<open>
  What one shell command of \<open>checkSystemHealth\<close> gives: \<open>execSync\<close> throws, or it
  prints a text in which the number expression matches (\<open>Some\<close> of the number read by
  \<open>parseInt\<close> or \<open>parseFloat\<close>) or does not.
\<close>

datatype 'a probe = Throws | Prints "'a option"

record probes =
  memory_pressure :: "nat probe"
  df :: "nat probe"
  powermetrics :: "real probe"
  uptime :: "nat probe"

definition num_text :: "engine \<Rightarrow> real \<Rightarrow> string" where
  "num_text e x = ToString e (JNum x)"

definition memory_alerts :: "engine \<Rightarrow> nat probe \<Rightarrow> sys_alert list" where
  "memory_alerts e p =
     (case p of
        Throws \<Rightarrow> []
      | Prints m \<Rightarrow>
          let memFree = (case m of None \<Rightarrow> 100 | Some n \<Rightarrow> n) in
          if memFree < 20
          then [\<lparr>type = ''memory'', severity = ''critical'',
                 message = JStr (''Memory critically low: '' @ num_text e (real memFree) @ ''% free'')\<rparr>]
          else if memFree < 40
          then [\<lparr>type = ''memory'', severity = ''warning'',
                 message = JStr (''Memory getting low: '' @ num_text e (real memFree) @ ''% free'')\<rparr>]
          else [])"

definition disk_alerts :: "engine \<Rightarrow> nat probe \<Rightarrow> sys_alert list" where
  "disk_alerts e p =
     (case p of
        Throws \<Rightarrow> []
      | Prints m \<Rightarrow>
          let diskUsed = (case m of None \<Rightarrow> 0 | Some n \<Rightarrow> n) in
          if diskUsed > 95
          then [\<lparr>type = ''disk'', severity = ''critical'',
                 message = JStr (''Disk almost full: '' @ num_text e (real diskUsed) @ ''% used'')\<rparr>]
          else if diskUsed > 85
          then [\<lparr>type = ''disk'', severity = ''warning'',
                 message = JStr (''Disk getting full: '' @ num_text e (real diskUsed) @ ''% used'')\<rparr>]
          else [])"

text \<open>The degree sign of the two temperature messages is written \<open>deg\<close>.\<close>

definition temperature_alerts :: "engine \<Rightarrow> real probe \<Rightarrow> sys_alert list" where
  "temperature_alerts e p =
     (case p of
        Throws \<Rightarrow> []
      | Prints m \<Rightarrow>
          let temp = (case m of None \<Rightarrow> 50 | Some x \<Rightarrow> x) in
          if temp > 95
          then [\<lparr>type = ''temperature'', severity = ''critical'',
                 message = JStr (''CPU overheating: '' @ num_text e temp @ ''degC'')\<rparr>]
          else if temp > 85
          then [\<lparr>type = ''temperature'', severity = ''warning'',
                 message = JStr (''CPU running hot: '' @ num_text e temp @ ''degC'')\<rparr>]
          else [])"

definition uptime_alerts :: "engine \<Rightarrow> nat probe \<Rightarrow> sys_alert list" where
  "uptime_alerts e p =
     (case p of
        Throws \<Rightarrow> []
      | Prints m \<Rightarrow>
          let days = (case m of None \<Rightarrow> 0 | Some n \<Rightarrow> n) in
          if days > 30
          then [\<lparr>type = ''uptime'', severity = ''info'',
                 message = JStr (''System has been up '' @ num_text e (real days)
                                   @ '' days - consider a restart soon'')\<rparr>]
          else [])"

text \<open>
  \<open>checkSystemHealth\<close>: the four blocks push onto one array in this order; \<open>ok\<close> counts
  the alerts whose severity is not \<open>info\<close>.
\<close>

definition system_alerts :: "engine \<Rightarrow> probes \<Rightarrow> sys_alert list" where
  "system_alerts e ps =
     memory_alerts e (memory_pressure ps) @ disk_alerts e (df ps)
       @ temperature_alerts e (powermetrics ps) @ uptime_alerts e (uptime ps)"

definition checkSystemHealth :: "engine \<Rightarrow> probes \<Rightarrow> json" where
  "checkSystemHealth e ps =
     (let alerts = system_alerts e ps
      in check_result ''System'' (length (filter (\<lambda>a. severity a \<noteq> ''info'') alerts) = 0)
           (map sys_alert_json alerts) [])"

text \<open>
  The \<open>fetch\<close> of self-check.js resolves whatever the status is. A \<open>for ... of\<close> loop
  over \<open>(data.features || [])\<close> walks an array, or the characters of a string, and
  throws on any other truthy value. A loop that throws keeps the alerts pushed before.
\<close>

definition self_fetch :: "(request \<Rightarrow> response) \<Rightarrow> request \<Rightarrow> error + body" where
  "self_fetch net url = (case net url of Reject m \<Rightarrow> Inl (Rejected m) | Resolve b \<Rightarrow> Inr b)"

definition iterate_features :: "json \<Rightarrow> error + json list" where
  "iterate_features data =
     (if nullish data then Inl TypeError
      else let fs = prop_of data ''features'' in
        if \<not> truthy fs then Inr []
        else (case fs of
                JArr xs \<Rightarrow> Inr xs
              | JStr s \<Rightarrow> Inr (map (\<lambda>c. JStr [c]) s)
              | _ \<Rightarrow> Inl TypeError))"

fun weather_alerts :: "engine \<Rightarrow> json list \<Rightarrow> sys_alert list" where
  "weather_alerts e [] = []"
| "weather_alerts e (feature # rest) =
     (case properties_of feature of
        Inl err \<Rightarrow> []
      | Inr props \<Rightarrow>
          if prop_of props ''severity'' = JStr ''Extreme'' \<or> prop_of props ''severity'' = JStr ''Severe''
          then \<lparr>type = ''weather'',
                severity = (case prop_of props ''severity'' of JStr s \<Rightarrow> toLowerCase e s | _ \<Rightarrow> ''''),
                message = (if truthy (prop_of props ''headline'') then prop_of props ''headline''
                           else prop_of props ''event'')\<rparr>
               # weather_alerts e rest
          else weather_alerts e rest)"

fun earthquake_alerts :: "engine \<Rightarrow> json list \<Rightarrow> sys_alert list" where
  "earthquake_alerts e [] = []"
| "earthquake_alerts e (feature # rest) =
     (case properties_of feature of
        Inl err \<Rightarrow> []
      | Inr props \<Rightarrow>
          \<lparr>type = ''earthquake'',
           severity = (if js_ge e (prop_of props ''mag'') 5 then ''critical'' else ''warning''),
           message = JStr (''M'' @ ToString e (prop_of props ''mag'') @ '' earthquake: ''
                             @ ToString e (prop_of props ''place''))\<rparr>
          # earthquake_alerts e rest)"

definition checkEnvironmentalThreats ::
    "engine \<Rightarrow> (request \<Rightarrow> response) \<Rightarrow> int \<Rightarrow> json \<Rightarrow> json \<Rightarrow> json" where
  "checkEnvironmentalThreats e net t la lo =
     (let weather =
            (case and_then (self_fetch net (NWSAlertsActive la lo)) (\<lambda>b.
                    and_then (JSON_parse b) iterate_features) of
               Inl err \<Rightarrow> []
             | Inr fs \<Rightarrow> weather_alerts e fs);
          quakes =
            (case and_then (self_fetch net (USGSQuery la lo 50 (t - 3600000) (Some 4))) (\<lambda>b.
                    and_then (JSON_parse b) iterate_features) of
               Inl err \<Rightarrow> []
             | Inr fs \<Rightarrow> earthquake_alerts e fs);
          alerts = weather @ quakes
      in check_result ''Environmental'' (length alerts = 0) (map sys_alert_json alerts) [])"

text \<open>
  \<open>checkConnectivity\<close>: \<open>tailscale\<close> is the parsed output of the status command,
  \<open>None\<close> when the command or the parse throws.
\<close>

definition tailscale_alerts :: "engine \<Rightarrow> json option \<Rightarrow> sys_alert list" where
  "tailscale_alerts e tailscale =
     (case tailscale of
        None \<Rightarrow> []
      | Some tsData \<Rightarrow>
          if nullish tsData then []
          else if truthy (prop_of tsData ''BackendState'') \<and>
                  prop_of tsData ''BackendState'' \<noteq> JStr ''Running''
          then [\<lparr>type = ''network'', severity = ''warning'',
                 message = JStr (''Tailscale not running: ''
                                   @ ToString e (prop_of tsData ''BackendState''))\<rparr>]
          else [])"

definition checkConnectivity :: "engine \<Rightarrow> (request \<Rightarrow> response) \<Rightarrow> json option \<Rightarrow> json" where
  "checkConnectivity e net tailscale =
     (let alerts = tailscale_alerts e tailscale @
            (case self_fetch net WeatherGovRoot of
               Inl err \<Rightarrow> [\<lparr>type = ''network'', severity = ''critical'',
                              message = JStr ''Internet connectivity issues detected''\<rparr>]
             | Inr b \<Rightarrow> [])
      in check_result ''Network'' (length alerts = 0) (map sys_alert_json alerts) [])"

section \<open>Sample inputs\<close>

text \<open>
  The state file of the skill's documentation, and an engine defined at the values the
  examples use: the dates of the examples with their time values; strings and the
  numbers 0 and 31 rendered as themselves; \<open>toLowerCase\<close> as it is on strings of ASCII
  characters, where only the letters A to Z change.
\<close>

definition lower_char :: "char \<Rightarrow> char" where
  "lower_char c =
     (case map_of (zip ''ABCDEFGHIJKLMNOPQRSTUVWXYZ'' ''abcdefghijklmnopqrstuvwxyz'') c of
        None \<Rightarrow> c
      | Some l \<Rightarrow> l)"

definition ascii_lower :: "string \<Rightarrow> string" where
  "ascii_lower s = map lower_char s"

definition sample_getTime :: "json \<Rightarrow> int option" where
  "sample_getTime v =
     (if v = JStr ''2026-01-29T22:00:00Z'' then Some 1769724000000
      else if v = JStr ''2026-01-29T22:19:00Z'' then Some 1769725140000
      else if v = JStr ''2026-01-29T23:00:00Z'' then Some 1769727600000
      else None)"

definition sample_iso :: "int \<Rightarrow> string" where
  "sample_iso t =
     (if t = 1769724000000 then ''2026-01-29T22:00:00.000Z''
      else if t = 1769725200000 then ''2026-01-29T22:20:00.000Z''
      else if t = 1769727600000 then ''2026-01-29T23:00:00.000Z''
      else if t = 1769727660000 then ''2026-01-29T23:01:00.000Z''
      else ''1970-01-01T00:00:00.000Z'')"

definition sample_engine :: engine where
  "sample_engine =
     \<lparr>Date_getTime = sample_getTime, toISOString = sample_iso,
      StringToNumber = (\<lambda>v. None),
      ToString = (\<lambda>v. case v of JStr s \<Rightarrow> s
                      | JNum x \<Rightarrow> if x = 0 then ''0'' else if x = 31 then ''31'' else []
                      | _ \<Rightarrow> []),
      toLowerCase = ascii_lower\<rparr>"

definition sample_state :: json where
  "sample_state =
     JObj [(''pendingAlert'', JStr ''Flood warning in your area''),
           (''alertSentAt'', JStr ''2026-01-29T22:00:00Z''),
           (''acknowledgedAt'', JNull)]"

definition acked_state :: json where
  "acked_state =
     JObj [(''pendingAlert'', JStr ''Flood warning in your area''),
           (''alertSentAt'', JStr ''2026-01-29T22:00:00Z''),
           (''acknowledgedAt'', JStr ''2026-01-29T22:19:00Z'')]"

definition sample_esc_world :: "json \<Rightarrow> int \<Rightarrow> esc_world" where
  "sample_esc_world st t = \<lparr>stateFile = JSONText st, now = t, stdout = []\<rparr>"

text \<open>A network on which every request times out, and the default configuration.\<close>

definition offline :: "request \<Rightarrow> response" where
  "offline url = Reject ''Timeout''"

definition default_config :: config where
  "default_config =
     \<lparr>newsFeeds = Some default_feeds,
      locationKeywords = Some [''seattle'', ''king county'', ''puget sound'', ''washington''],
      earthquakeRadiusKm = Some 100\<rparr>"

definition seattle :: json where
  "seattle =
     JObj [(''lat'', JNum 47.6062), (''lon'', JNum (- 122.3321)),
           (''receivedAt'', JStr ''2026-01-29T22:00:00Z'')]"

text \<open>The \<open>earthquake\<close> scenario of test-scenarios.js, written at 22:00 to expire at 23:00.\<close>

definition earthquake_scenario :: json where
  "earthquake_scenario =
     JObj [(''source'', JStr ''USGS''), (''ok'', JBool False),
           (''alerts'', JArr [JObj [(''magnitude'', JNum 5.2),
                                    (''place'', JStr ''TEST: 3km NE of Redmond, Washington''),
                                    (''time'', JStr ''2026-01-29T22:00:00.000Z''),
                                    (''distance'', JStr ''3km away'')]])]"

definition earthquake_override :: json where
  "earthquake_override =
     JObj [(''usgs'', earthquake_scenario), (''_test'', JBool True),
           (''_scenario'', JStr ''earthquake''),
           (''_createdAt'', JStr ''2026-01-29T22:00:00Z''),
           (''_expiresAt'', JStr ''2026-01-29T23:00:00Z'')]"

definition sample_world :: "json_file \<Rightarrow> json_file \<Rightarrow> int \<Rightarrow> world" where
  "sample_world loc ov t =
     \<lparr>CONFIG = default_config, locationFile = loc, overrideFile = ov, clock = t,
      upstream = offline, fetched = [], logs = Map.empty, printed = []\<rparr>"

text \<open>Two stored locations with a zero coordinate: on the equator, on the prime meridian.\<close>

definition equator_point :: json where
  "equator_point =
     JObj [(''lat'', JNum 0), (''lon'', JNum 32.58),
           (''receivedAt'', JStr ''2026-01-29T22:00:00Z'')]"

definition greenwich :: json where
  "greenwich =
     JObj [(''lat'', JNum 51.4779), (''lon'', JNum 0),
           (''receivedAt'', JStr ''2026-01-29T22:00:00Z'')]"

text \<open>A healthy machine that has been up for 31 days.\<close>

definition long_uptime :: probes where
  "long_uptime =
     \<lparr>memory_pressure = Prints (Some 70), df = Prints (Some 40),
      powermetrics = Prints (Some 50), uptime = Prints (Some 31)\<rparr>"

text \<open>
  News alerts by their titles, as the feed loop builds them at 22:20 from items of the
  first default feed published at 22:00: a story reported twice, and a busy day on which
  the sixth story is reported twice.
\<close>

definition story :: "string \<Rightarrow> rss_item" where
  "story t =
     \<lparr>item_title = t, item_desc = [], item_link = ''https://www.king5.com/story'',
      item_pubDate = ''2026-01-29T22:00:00Z''\<rparr>"

definition headline :: "string \<Rightarrow> news_alert" where
  "headline t =
     \<lparr>title = t, source = JStr ''www.king5.com'', link = ''https://www.king5.com/story'',
      age = ''0h ago''\<rparr>"

definition reported_twice :: "news_alert list" where
  "reported_twice =
     [headline ''Shots fired near Pike Place Market in downtown Seattle, police say'',
      headline ''SHOTS FIRED NEAR PIKE PLACE MARKET IN DOWNTOWN SEATTLE, POLICE SAY!!'']"

definition busy_day :: "news_alert list" where
  "busy_day =
     [headline ''Wildfire near Seattle'',
      headline ''Flash flood in King County'',
      headline ''Gas leak in Seattle'',
      headline ''Lockdown at Seattle school'',
      headline ''Power outage in Seattle'',
      headline ''Road closed in Seattle'',
      headline ''ROAD CLOSED IN SEATTLE'']"

text \<open>
  Networks. On \<open>weather_down q\<close> the weather request times out, the earthquake query
  finds nothing, the air quality index is \<open>q\<close> and the feeds have no items. On
  \<open>twice_on_king5\<close> the first default feed carries the story reported twice and every
  other request times out.
\<close>

definition weather_down :: "real \<Rightarrow> request \<Rightarrow> response" where
  "weather_down q url =
     (case url of
        NWSAlertsActive la lo \<Rightarrow> Reject ''Timeout''
      | USGSQuery la lo r t m \<Rightarrow>
          Resolve \<lparr>as_json = Some (JObj [(''features'', JArr [])]), as_items = []\<rparr>
      | OpenMeteoAirQuality la lo \<Rightarrow>
          Resolve \<lparr>as_json = Some (JObj [(''current'',
                      JObj [(''us_aqi'', JNum q), (''pm2_5'', JNum 8.5)])]),
                   as_items = []\<rparr>
      | Feed u \<Rightarrow> Resolve \<lparr>as_json = None, as_items = []\<rparr>
      | WeatherGovRoot \<Rightarrow> Resolve \<lparr>as_json = None, as_items = []\<rparr>)"

definition twice_on_king5 :: "request \<Rightarrow> response" where
  "twice_on_king5 url =
     (if url = Feed ''https://www.king5.com/feeds/syndication/rss/news/local''
      then Resolve \<lparr>as_json = None,
             as_items =
               [story ''Shots fired near Pike Place Market in downtown Seattle, police say'',
                story ''SHOTS FIRED NEAR PIKE PLACE MARKET IN DOWNTOWN SEATTLE, POLICE SAY!!'']\<rparr>
      else Reject ''Timeout'')"

section \<open>Properties of the escalation check\<close>

lemma truthy_not_nullish: "truthy v \<Longrightarrow> \<not> nullish v"
  by (cases v) auto

lemma ceiling_one_sixtieth: "\<lceil>(1::real) / 60\<rceil> = 1"
  by (simp add: ceiling_eq_iff)

text \<open>
  What \<open>run\<close> prints for a pending alert that is not acknowledged and whose
  \<open>alertSentAt\<close> is a date.
\<close>

lemma run_pending:
  assumes "stateFile w = JSONText st"
    and "truthy (prop_of st ''pendingAlert'')" and "truthy (prop_of st ''alertSentAt'')"
    and "\<not> truthy (prop_of st ''acknowledgedAt'')"
    and "getTime (prop_of st ''alertSentAt'') = Some raisedAt"
  shows "run getTime w = Inr (console_log
     (if now w - raisedAt \<ge> 900000
      then ActionEscalate (prop_of st ''pendingAlert'') (prop_of st ''alertSentAt'')
             (Some (round_minutes (now w - raisedAt))) EMERGENCY_CONTACT EMERGENCY_CONTACT_NAME
      else ActionWaiting (prop_of st ''pendingAlert'') (Some (round_minutes (now w - raisedAt)))
             (Some (ceil_minutes (900000 - (now w - raisedAt))))) w)"
proof -
  have "\<not> nullish st"
    using assms(2) by (cases st) auto
  then show ?thesis
    using assms by (simp add: run_def ESCALATION_THRESHOLD_MS_def Let_def)
qed

text \<open>
  C3. For a pending alert that is not acknowledged and was raised at \<open>raisedAt\<close>, the
  check prints one line: its action is \<open>escalate\<close> exactly when
  \<open>now - raisedAt\<close> is at least 15 minutes, and \<open>waiting\<close> otherwise, then with
  \<open>minutesRemaining\<close> the ceiling of (15 minutes - elapsed) / 1 minute. An alert raised
  14 minutes 59 seconds ago waits with one minute remaining; one raised 15 minutes ago
  or earlier escalates. Times are in milliseconds.
\<close>

theorem escalation_threshold:
  assumes "stateFile w = JSONText st"
    and "truthy (prop_of st ''pendingAlert'')" and "truthy (prop_of st ''alertSentAt'')"
    and "\<not> truthy (prop_of st ''acknowledgedAt'')"
    and "getTime (prop_of st ''alertSentAt'') = Some raisedAt"
  shows "\<exists>out. run getTime w = Inr (console_log out w) \<and>
      (action out = escalate \<longleftrightarrow> now w - raisedAt \<ge> 15 * 60 * 1000) \<and>
      (action out = waiting \<longleftrightarrow> now w - raisedAt < 15 * 60 * 1000) \<and>
      (now w - raisedAt < 15 * 60 * 1000 \<longrightarrow>
         minutesRemaining out =
           Some \<lceil>(15 * 60 * 1000 - real_of_int (now w - raisedAt)) / (60 * 1000)\<rceil>) \<and>
      (raisedAt = now w - (14 * 60 * 1000 + 59 * 1000) \<longrightarrow>
         action out = waiting \<and> minutesRemaining out = Some 1) \<and>
      (raisedAt \<le> now w - 15 * 60 * 1000 \<longrightarrow> action out = escalate)"
proof (cases "now w - raisedAt \<ge> 900000")
  case True
  then show ?thesis
    using run_pending [where getTime = getTime, OF assms] by auto
next
  case False
  then show ?thesis
    using run_pending [where getTime = getTime, OF assms]
    by (auto simp: ceil_minutes_def ceiling_one_sixtieth)
qed

theorem escalation_threshold_witness:
  "stateFile (sample_esc_world sample_state 1769724899000) = JSONText sample_state \<and>
   truthy (prop_of sample_state ''pendingAlert'') \<and>
   truthy (prop_of sample_state ''alertSentAt'') \<and>
   \<not> truthy (prop_of sample_state ''acknowledgedAt'') \<and>
   sample_getTime (prop_of sample_state ''alertSentAt'') = Some (1769724899000 - 899000) \<and>
   (\<exists>out. run sample_getTime (sample_esc_world sample_state 1769724899000)
             = Inr (console_log out (sample_esc_world sample_state 1769724899000)) \<and>
          action out = waiting \<and> minutesRemaining out = Some 1)"
  using escalation_threshold [where w = "sample_esc_world sample_state 1769724899000"
      and st = sample_state and getTime = sample_getTime and raisedAt = 1769724000000]
  by (auto simp: sample_esc_world_def sample_state_def sample_getTime_def)

text \<open>
  C4. For a pending alert whose \<open>acknowledgedAt\<close> is set, the check prints action
  \<open>none\<close>, whatever the clock and the date of the alert are.
\<close>

theorem acknowledged_no_escalation:
  assumes "stateFile w = JSONText st"
    and "truthy (prop_of st ''pendingAlert'')" and "truthy (prop_of st ''alertSentAt'')"
    and "truthy (prop_of st ''acknowledgedAt'')"
  shows "\<exists>out. run getTime w = Inr (console_log out w) \<and> action out = none"
proof -
  have "\<not> nullish st"
    using assms(2) by (cases st) auto
  then have "run getTime w = Inr (console_log (ActionNone ''already acknowledged'') w)"
    using assms by (simp add: run_def)
  then show ?thesis by auto
qed

text \<open>The alert was raised 20 minutes before now and acknowledged one minute before now.\<close>

theorem acknowledged_no_escalation_witness:
  "truthy (prop_of acked_state ''acknowledgedAt'') \<and>
   sample_getTime (prop_of acked_state ''alertSentAt'') = Some (1769725200000 - 20 * 60 * 1000) \<and>
   sample_getTime (prop_of acked_state ''acknowledgedAt'') = Some (1769725200000 - 60 * 1000) \<and>
   (\<exists>out. run sample_getTime (sample_esc_world acked_state 1769725200000)
       = Inr (console_log out (sample_esc_world acked_state 1769725200000))
      \<and> action out = none)"
  using acknowledged_no_escalation
    [where w = "sample_esc_world acked_state 1769725200000"
       and st = acked_state and getTime = sample_getTime]
  by (simp add: acked_state_def sample_getTime_def sample_esc_world_def)

text \<open>
  C9. The check leaves the state file and the clock as they are: a run that prints
  appends one line to the output and changes nothing else, and every run from the same
  state file at the same time, the next one included, prints the same line. A run that
  ends in an error does so again from the same state file.
\<close>

theorem escalation_read_only:
  "case run getTime w of
     Inl err \<Rightarrow> (\<forall>w2. stateFile w2 = stateFile w \<longrightarrow> run getTime w2 = Inl err)
   | Inr w' \<Rightarrow> stateFile w' = stateFile w \<and> now w' = now w \<and>
       (\<exists>out. w' = console_log out w \<and> run getTime w' = Inr (console_log out w') \<and>
          (\<forall>w2. stateFile w2 = stateFile w \<and> now w2 = now w \<longrightarrow>
             run getTime w2 = Inr (console_log out w2)))"
  by (auto simp: run_def console_log_def Let_def split: json_file.splits sum.splits option.splits)

theorem escalation_read_only_witness:
  "run sample_getTime (sample_esc_world sample_state 1769724899000)
     = Inr (console_log (ActionWaiting (JStr ''Flood warning in your area'') (Some 15) (Some 1))
             (sample_esc_world sample_state 1769724899000)) \<and>
   run sample_getTime
       (console_log (ActionWaiting (JStr ''Flood warning in your area'') (Some 15) (Some 1))
          (sample_esc_world sample_state 1769724899000))
     = Inr (console_log (ActionWaiting (JStr ''Flood warning in your area'') (Some 15) (Some 1))
          (console_log (ActionWaiting (JStr ''Flood warning in your area'') (Some 15) (Some 1))
             (sample_esc_world sample_state 1769724899000)))"
  using escalation_read_only
    [where getTime = sample_getTime and w = "sample_esc_world sample_state 1769724899000"]
  by (simp add: run_def sample_esc_world_def sample_state_def sample_getTime_def console_log_def
       ESCALATION_THRESHOLD_MS_def round_minutes_def ceil_minutes_def ceiling_eq_iff floor_eq_iff)

section \<open>Properties of the safety check\<close>

lemma and_then_simps [simp]:
  "and_then (Inl err) f = Inl err"
  "and_then (Inr x) f = f x"
  by (simp_all add: and_then_def)

lemma and_then_Inr_iff: "and_then r f = Inr x \<longleftrightarrow> (\<exists>y. r = Inr y \<and> f y = Inr x)"
  by (cases r) simp_all

lemma prop_check_result [simp]:
  "prop_of (check_result src b alerts extra) ''ok'' = JBool b"
  "prop_of (check_result src b alerts extra) ''alerts'' = JArr alerts"
  by (simp_all add: check_result_def)

lemma prop_failed_open [simp]:
  "prop_of (failed_open src err) ''ok'' = JBool True"
  "prop_of (failed_open src err) ''alerts'' = JArr []"
  "prop_of (failed_open src err) ''error'' = JStr (error_message err)"
  by (simp_all add: failed_open_def)

subsection \<open>The flag and the alerts of each adapter\<close>

lemma checkNWSAlerts_consistent:
  "prop_of (fst (checkNWSAlerts la lo w)) ''ok''
     = JBool (prop_of (fst (checkNWSAlerts la lo w)) ''alerts'' = JArr [])"
  by (simp add: checkNWSAlerts_def Let_def split: prod.splits sum.splits)

lemma checkEarthquakes_consistent:
  "prop_of (fst (checkEarthquakes e la lo w)) ''ok''
     = JBool (prop_of (fst (checkEarthquakes e la lo w)) ''alerts'' = JArr [])"
  by (simp add: checkEarthquakes_def Let_def split: prod.splits sum.splits)

lemma air_quality_consistent:
  "air_quality e data = Inr r \<Longrightarrow> prop_of r ''ok'' = JBool (prop_of r ''alerts'' = JArr [])"
  by (auto simp: air_quality_def and_then_def Let_def split: sum.splits if_splits)

lemma checkAirQuality_consistent:
  "prop_of (fst (checkAirQuality e la lo w)) ''ok''
     = JBool (prop_of (fst (checkAirQuality e la lo w)) ''alerts'' = JArr [])"
  by (auto simp: checkAirQuality_def Let_def and_then_Inr_iff dest: air_quality_consistent
      split: prod.splits sum.splits)

lemma checkLocalNews_consistent:
  "prop_of (fst (checkLocalNews e la lo w)) ''ok''
     = JBool (prop_of (fst (checkLocalNews e la lo w)) ''alerts'' = JArr [])"
  by (auto simp: checkLocalNews_def Let_def surfaced_def split: prod.splits option.splits)

lemma searchBreakingNews_consistent:
  "prop_of (searchBreakingNews la lo) ''ok''
     = JBool (prop_of (searchBreakingNews la lo) ''alerts'' = JArr [])"
  by (simp add: searchBreakingNews_def)

lemma checkEnvironmentalThreats_consistent:
  "prop_of (checkEnvironmentalThreats e net t la lo) ''ok''
     = JBool (prop_of (checkEnvironmentalThreats e net t la lo) ''alerts'' = JArr [])"
  by (simp add: checkEnvironmentalThreats_def Let_def)

lemma checkConnectivity_consistent:
  "prop_of (checkConnectivity e net ts) ''ok''
     = JBool (prop_of (checkConnectivity e net ts) ''alerts'' = JArr [])"
  by (simp add: checkConnectivity_def Let_def)

lemma checkSystemHealth_flag:
  "prop_of (checkSystemHealth e ps) ''ok''
     = JBool (\<forall>a \<in> set (system_alerts e ps). severity a = ''info'')"
  by (simp add: checkSystemHealth_def Let_def filter_empty_conv)

lemma checkSystemHealth_alerts:
  "prop_of (checkSystemHealth e ps) ''alerts'' = JArr (map sys_alert_json (system_alerts e ps))"
  by (simp add: checkSystemHealth_def Let_def)

lemma uptime_alerts_info: "a \<in> set (uptime_alerts e p) \<Longrightarrow> severity a = ''info''"
  by (auto simp: uptime_alerts_def Let_def split: probe.splits if_splits)

lemma memory_alerts_not_info: "a \<in> set (memory_alerts e p) \<Longrightarrow> severity a \<noteq> ''info''"
  by (auto simp: memory_alerts_def Let_def split: probe.splits if_splits)

lemma disk_alerts_not_info: "a \<in> set (disk_alerts e p) \<Longrightarrow> severity a \<noteq> ''info''"
  by (auto simp: disk_alerts_def Let_def split: probe.splits if_splits)

lemma temperature_alerts_not_info: "a \<in> set (temperature_alerts e p) \<Longrightarrow> severity a \<noteq> ''info''"
  by (auto simp: temperature_alerts_def Let_def split: probe.splits if_splits)

lemma system_all_info_iff:
  "(\<forall>a \<in> set (system_alerts e ps). severity a = ''info'')
     \<longleftrightarrow> system_alerts e ps = uptime_alerts e (uptime ps)"
proof
  assume all: "\<forall>a \<in> set (system_alerts e ps). severity a = ''info''"
  have "memory_alerts e (memory_pressure ps) = []"
    using all memory_alerts_not_info [of _ e "memory_pressure ps"]
    by (cases "memory_alerts e (memory_pressure ps)") (auto simp: system_alerts_def)
  moreover have "disk_alerts e (df ps) = []"
    using all disk_alerts_not_info [of _ e "df ps"]
    by (cases "disk_alerts e (df ps)") (auto simp: system_alerts_def)
  moreover have "temperature_alerts e (powermetrics ps) = []"
    using all temperature_alerts_not_info [of _ e "powermetrics ps"]
    by (cases "temperature_alerts e (powermetrics ps)") (auto simp: system_alerts_def)
  ultimately show "system_alerts e ps = uptime_alerts e (uptime ps)"
    by (simp add: system_alerts_def)
next
  assume "system_alerts e ps = uptime_alerts e (uptime ps)"
  then show "\<forall>a \<in> set (system_alerts e ps). severity a = ''info''"
    using uptime_alerts_info by auto
qed

text \<open>
  C5, as the claim states it, fails for \<open>checkSystemHealth\<close>: a healthy machine that
  has been up for 31 days gets \<open>ok = true\<close> together with one alert, the uptime notice.
\<close>

theorem check_result_invariant_counterexample:
  "prop_of (checkSystemHealth sample_engine long_uptime) ''ok'' = JBool True \<and>
   prop_of (checkSystemHealth sample_engine long_uptime) ''alerts''
     = JArr [JObj [(''type'', JStr ''uptime''), (''severity'', JStr ''info''),
                   (''message'', JStr ''System has been up 31 days - consider a restart soon'')]] \<and>
   \<not> (prop_of (checkSystemHealth sample_engine long_uptime) ''ok''
        = JBool (prop_of (checkSystemHealth sample_engine long_uptime) ''alerts'' = JArr []))"
  by (simp add: checkSystemHealth_def system_alerts_def memory_alerts_def disk_alerts_def
      temperature_alerts_def uptime_alerts_def check_result_def sys_alert_json_def num_text_def
      long_uptime_def sample_engine_def Let_def)

text \<open>
  C5, amended. The result of every adapter but \<open>checkSystemHealth\<close> has \<open>ok\<close> true
  exactly when its \<open>alerts\<close> are empty: the four adapters of the safety check, the web
  search stub, and the environment and network adapters of the self-check. The result
  of \<open>checkSystemHealth\<close> has \<open>ok\<close> true exactly when every alert has severity
  \<open>info\<close>, that is when its alerts are the uptime notice or none; so there \<open>ok\<close> is
  true with alerts present exactly when the alerts are the uptime notice alone.
\<close>

theorem check_result_invariant:
  "(\<forall>r \<in> {fst (checkNWSAlerts la lo w), fst (checkEarthquakes e la lo w),
           fst (checkAirQuality e la lo w), fst (checkLocalNews e la lo w),
           searchBreakingNews la lo, checkEnvironmentalThreats e net t la lo,
           checkConnectivity e net ts}.
      prop_of r ''ok'' = JBool (prop_of r ''alerts'' = JArr [])) \<and>
   prop_of (checkSystemHealth e ps) ''alerts'' = JArr (map sys_alert_json (system_alerts e ps)) \<and>
   prop_of (checkSystemHealth e ps) ''ok''
     = JBool (\<forall>a \<in> set (system_alerts e ps). severity a = ''info'') \<and>
   prop_of (checkSystemHealth e ps) ''ok''
     = JBool (system_alerts e ps = uptime_alerts e (uptime ps)) \<and>
   (uptime_alerts e (uptime ps) = [] \<longrightarrow>
      prop_of (checkSystemHealth e ps) ''ok''
        = JBool (prop_of (checkSystemHealth e ps) ''alerts'' = JArr []))"
  using checkNWSAlerts_consistent [of la lo w] checkEarthquakes_consistent [of e la lo w]
    checkAirQuality_consistent [of e la lo w] checkLocalNews_consistent [of e la lo w]
    searchBreakingNews_consistent [of la lo] checkEnvironmentalThreats_consistent [of e net t la lo]
    checkConnectivity_consistent [of e net ts]
  by (simp add: checkSystemHealth_flag checkSystemHealth_alerts system_all_info_iff)

theorem check_result_invariant_witness:
  "prop_of (fst (checkNWSAlerts (JNum 47.6062) (JNum (- 122.3321))
                  (sample_world (JSONText seattle) NoFile 1769725200000))) ''ok'' = JBool True \<and>
   prop_of (fst (checkNWSAlerts (JNum 47.6062) (JNum (- 122.3321))
                  (sample_world (JSONText seattle) NoFile 1769725200000))) ''alerts'' = JArr [] \<and>
   uptime_alerts sample_engine (uptime long_uptime) \<noteq> [] \<and>
   system_alerts sample_engine long_uptime = uptime_alerts sample_engine (uptime long_uptime) \<and>
   prop_of (checkSystemHealth sample_engine long_uptime) ''ok'' = JBool True"
  using check_result_invariant [where la = "JNum 47.6062" and lo = "JNum (- 122.3321)"
      and w = "sample_world (JSONText seattle) NoFile 1769725200000" and e = sample_engine
      and net = offline and t = 1769725200000 and ts = None and ps = long_uptime]
  by (simp add: checkNWSAlerts_def fetch_def sample_world_def offline_def failed_open_def
      system_alerts_def memory_alerts_def disk_alerts_def temperature_alerts_def
      uptime_alerts_def long_uptime_def Let_def)

subsection \<open>The run\<close>

lemma runSafetyCheck_no_location:
  "\<not> truthy (getLocation w) \<or> \<not> truthy (prop_of (getLocation w) ''lat'')
     \<or> \<not> truthy (prop_of (getLocation w) ''lon'')
   \<Longrightarrow> runSafetyCheck e w
        = (Failure ''No location data available'' (toISOString e (clock w)), w)"
  by (auto simp: runSafetyCheck_def)

text \<open>With a location, the run returns a report; its checks and its verdict.\<close>

lemma runSafetyCheck_report:
  assumes "truthy (getLocation w)" "truthy (prop_of (getLocation w) ''lat'')"
    "truthy (prop_of (getLocation w) ''lon'')"
  shows "\<exists>r w' n u a s. runSafetyCheck e w = (Report r, w') \<and>
    nws (checks r) = apply_override (fst (getTestOverride e w)) ''nws'' n \<and>
    usgs (checks r) = apply_override (fst (getTestOverride e w)) ''usgs'' u \<and>
    aqi (checks r) = apply_override (fst (getTestOverride e w)) ''aqi'' a \<and>
    news (checks r) = apply_override (fst (getTestOverride e w)) ''news'' s \<and>
    status r = (if truthy (prop_of (nws (checks r)) ''ok'') \<and>
                   truthy (prop_of (usgs (checks r)) ''ok'') \<and>
                   truthy (prop_of (aqi (checks r)) ''ok'') \<and>
                   truthy (prop_of (news (checks r)) ''ok'')
                then ALL_CLEAR else ALERTS_FOUND)"
  using assms by (simp add: runSafetyCheck_def Let_def case_prod_beta) blast

lemma report_has_location:
  assumes "runSafetyCheck e w = (Report r, w')"
  shows "truthy (getLocation w) \<and> truthy (prop_of (getLocation w) ''lat'')
     \<and> truthy (prop_of (getLocation w) ''lon'')"
  using assms runSafetyCheck_no_location [of w e] by auto

lemma location_file_truthy:
  assumes "locationFile w = JSONText loc" "truthy (prop_of loc ''lat'')"
  shows "getLocation w = loc" "truthy loc"
  using assms by (cases loc; simp add: getLocation_def)+

text \<open>
  C1. In every report of \<open>runSafetyCheck\<close> the verdict is \<open>ALL_CLEAR\<close> exactly when
  the \<open>ok\<close> flag of each of the four checks is truthy, and \<open>ALERTS_FOUND\<close> otherwise;
  one check that is not clear is enough for \<open>ALERTS_FOUND\<close>. For checks whose flags are
  booleans, as those of every adapter are, truthy means \<open>true\<close>.
\<close>

theorem verdict_all_clear_iff:
  assumes "runSafetyCheck e w = (Report r, w')"
  shows "(status r = ALL_CLEAR \<longleftrightarrow>
            truthy (prop_of (nws (checks r)) ''ok'') \<and> truthy (prop_of (usgs (checks r)) ''ok'') \<and>
            truthy (prop_of (aqi (checks r)) ''ok'') \<and> truthy (prop_of (news (checks r)) ''ok''))
       \<and> (status r \<noteq> ALL_CLEAR \<longleftrightarrow> status r = ALERTS_FOUND)
       \<and> ((\<exists>c \<in> {nws (checks r), usgs (checks r), aqi (checks r), news (checks r)}.
              \<not> truthy (prop_of c ''ok'')) \<longrightarrow> status r = ALERTS_FOUND)
       \<and> ((\<forall>c \<in> {nws (checks r), usgs (checks r), aqi (checks r), news (checks r)}.
              \<exists>b. prop_of c ''ok'' = JBool b) \<longrightarrow>
            (status r = ALL_CLEAR \<longleftrightarrow>
               (\<forall>c \<in> {nws (checks r), usgs (checks r), aqi (checks r), news (checks r)}.
                  prop_of c ''ok'' = JBool True)))"
proof -
  have "status r = (if truthy (prop_of (nws (checks r)) ''ok'') \<and>
                   truthy (prop_of (usgs (checks r)) ''ok'') \<and>
                   truthy (prop_of (aqi (checks r)) ''ok'') \<and>
                   truthy (prop_of (news (checks r)) ''ok'')
                then ALL_CLEAR else ALERTS_FOUND)"
    using runSafetyCheck_report [of w e] report_has_location [OF assms] assms by auto
  then show ?thesis by auto
qed

text \<open>
  The earthquake scenario is injected and the network is down: three checks fail open,
  the injected one is not clear, the verdict is \<open>ALERTS_FOUND\<close>.
\<close>

theorem verdict_all_clear_iff_witness:
  "\<exists>r w'. runSafetyCheck sample_engine
            (sample_world (JSONText seattle) (JSONText earthquake_override) 1769725200000)
          = (Report r, w') \<and>
     prop_of (nws (checks r)) ''ok'' = JBool True \<and>
     prop_of (usgs (checks r)) ''ok'' = JBool False \<and>
     prop_of (aqi (checks r)) ''ok'' = JBool True \<and>
     prop_of (news (checks r)) ''ok'' = JBool True \<and>
     status r = ALERTS_FOUND"
proof -
  obtain r w' where run: "runSafetyCheck sample_engine
            (sample_world (JSONText seattle) (JSONText earthquake_override) 1769725200000)
          = (Report r, w')"
    and flags: "prop_of (nws (checks r)) ''ok'' = JBool True"
      "prop_of (usgs (checks r)) ''ok'' = JBool False"
      "prop_of (aqi (checks r)) ''ok'' = JBool True"
      "prop_of (news (checks r)) ''ok'' = JBool True"
    by (simp add: runSafetyCheck_def getLocation_def getTestOverride_def apply_override_def
        checkNWSAlerts_def checkEarthquakes_def checkAirQuality_def checkLocalNews_def
        fetch_def failed_open_def check_result_def surfaced_def radiusKm_def
        sample_world_def sample_engine_def sample_getTime_def offline_def
        default_config_def default_feeds_def seattle_def earthquake_override_def
        earthquake_scenario_def Let_def)
  from verdict_all_clear_iff [OF run] flags have "status r = ALERTS_FOUND"
    by simp
  with run flags show ?thesis by blast
qed

text \<open>
  C8. Unless the location file holds a value with truthy \<open>lat\<close> and \<open>lon\<close> (so when
  the file is missing, is not JSON, holds \<open>null\<close>, or lacks a coordinate), the run
  returns the error result \<open>No location data available\<close> and no report, hence no
  status; it issues no request, writes no log, prints nothing and leaves the files.
\<close>

theorem no_location_error:
  assumes "\<not> (\<exists>loc. locationFile w = JSONText loc \<and> truthy (prop_of loc ''lat'')
                   \<and> truthy (prop_of loc ''lon''))"
  shows "fst (runSafetyCheck e w)
           = Failure ''No location data available'' (toISOString e (clock w)) \<and>
         error (fst (runSafetyCheck e w)) = ''No location data available'' \<and>
         (\<forall>r. fst (runSafetyCheck e w) \<noteq> Report r) \<and>
         snd (runSafetyCheck e w) = w \<and>
         fetched (snd (runSafetyCheck e w)) = fetched w \<and>
         logs (snd (runSafetyCheck e w)) = logs w \<and>
         printed (snd (runSafetyCheck e w)) = printed w"
proof -
  have "\<not> truthy (getLocation w) \<or> \<not> truthy (prop_of (getLocation w) ''lat'')
     \<or> \<not> truthy (prop_of (getLocation w) ''lon'')"
    using assms by (cases "locationFile w") (auto simp: getLocation_def)
  then show ?thesis
    using runSafetyCheck_no_location [of w e] by simp
qed

theorem no_location_error_witness:
  "\<not> (\<exists>loc. locationFile (sample_world NoFile NoFile 1769725200000) = JSONText loc
          \<and> truthy (prop_of loc ''lat'') \<and> truthy (prop_of loc ''lon'')) \<and>
   fst (runSafetyCheck sample_engine (sample_world NoFile NoFile 1769725200000))
     = Failure ''No location data available'' ''2026-01-29T22:20:00.000Z'' \<and>
   fetched (snd (runSafetyCheck sample_engine (sample_world NoFile NoFile 1769725200000))) = []"
  using no_location_error [where w = "sample_world NoFile NoFile 1769725200000"
      and e = sample_engine]
  by (simp add: sample_world_def sample_engine_def sample_iso_def)

text \<open>
  C10. A stored location whose \<open>lat\<close> or \<open>lon\<close> is the number 0 is treated as no
  location: the run returns the error result \<open>No location data available\<close> and runs
  no check.
\<close>

theorem zero_coordinate_no_location:
  assumes "locationFile w = JSONText loc"
    and "prop_of loc ''lat'' = JNum 0 \<or> prop_of loc ''lon'' = JNum 0"
  shows "runSafetyCheck e w
           = (Failure ''No location data available'' (toISOString e (clock w)), w)"
proof -
  have "getLocation w = loc"
    using assms(1) by (simp add: getLocation_def)
  then have "\<not> truthy (prop_of (getLocation w) ''lat'') \<or> \<not> truthy (prop_of (getLocation w) ''lon'')"
    using assms(2) by auto
  then show ?thesis
    using runSafetyCheck_no_location [of w e] by blast
qed

theorem zero_coordinate_no_location_witness:
  "prop_of equator_point ''lat'' = JNum 0 \<and> prop_of greenwich ''lon'' = JNum 0 \<and>
   runSafetyCheck sample_engine (sample_world (JSONText equator_point) NoFile 1769725200000)
     = (Failure ''No location data available'' ''2026-01-29T22:20:00.000Z'',
        sample_world (JSONText equator_point) NoFile 1769725200000) \<and>
   runSafetyCheck sample_engine (sample_world (JSONText greenwich) NoFile 1769725200000)
     = (Failure ''No location data available'' ''2026-01-29T22:20:00.000Z'',
        sample_world (JSONText greenwich) NoFile 1769725200000)"
  using zero_coordinate_no_location [where e = sample_engine and loc = equator_point
      and w = "sample_world (JSONText equator_point) NoFile 1769725200000"]
    zero_coordinate_no_location [where e = sample_engine and loc = greenwich
      and w = "sample_world (JSONText greenwich) NoFile 1769725200000"]
  by (simp add: sample_world_def sample_engine_def sample_iso_def equator_point_def greenwich_def)

subsection \<open>Failing fetches\<close>

lemma fetch_fst:
  "fst (fetch url w) = (case upstream w url of Reject m \<Rightarrow> Inl (Rejected m) | Resolve b \<Rightarrow> Inr b)"
  by (simp add: fetch_def)

lemma fetch_frame [simp]:
  "upstream (snd (fetch url w)) = upstream w"
  "clock (snd (fetch url w)) = clock w"
  "CONFIG (snd (fetch url w)) = CONFIG w"
  by (simp_all add: fetch_def)

text \<open>
  The alerts of the feed loop, feed by feed: those of the items of the feeds that
  resolve, nothing for a feed that rejects.
\<close>

lemma scan_feeds_alerts:
  "fst (scan_feeds e k feeds w) =
     concat (map (\<lambda>u. case upstream w (Feed u) of
                          Reject m \<Rightarrow> []
                        | Resolve b \<Rightarrow>
                            List.map_filter (item_alert e k (clock w) u) (take 15 (as_items b)))
                 feeds)"
proof (induction feeds arbitrary: w)
  case Nil
  show ?case by simp
next
  case (Cons u feeds)
  show ?case
    by (simp add: Cons.IH case_prod_beta Let_def fetch_fst cong: response.case_cong
        split: response.splits)
qed

lemma scan_feeds_frame [simp]:
  "upstream (snd (scan_feeds e k feeds w)) = upstream w"
  "clock (snd (scan_feeds e k feeds w)) = clock w"
  "CONFIG (snd (scan_feeds e k feeds w)) = CONFIG w"
  by (induction feeds arbitrary: w; simp add: case_prod_beta Let_def)+

lemma scan_feeds_all_rejected:
  assumes "\<forall>u \<in> set feeds. \<exists>m. upstream w (Feed u) = Reject m"
  shows "fst (scan_feeds e k feeds w) = []"
  using assms by (auto simp: scan_feeds_alerts)

lemma checkNWSAlerts_rejected:
  "upstream w (NWSAlertsActive la lo) = Reject m \<Longrightarrow>
     fst (checkNWSAlerts la lo w) = failed_open ''NWS'' (Rejected m)"
  by (simp add: checkNWSAlerts_def case_prod_beta fetch_fst)

lemma checkEarthquakes_rejected:
  "upstream w (USGSQuery la lo (radiusKm (CONFIG w)) (clock w - 86400000) None) = Reject m \<Longrightarrow>
     fst (checkEarthquakes e la lo w) = failed_open ''USGS'' (Rejected m)"
  by (simp add: checkEarthquakes_def case_prod_beta fetch_fst)

lemma checkAirQuality_rejected:
  "upstream w (OpenMeteoAirQuality la lo) = Reject m \<Longrightarrow>
     fst (checkAirQuality e la lo w) = failed_open ''AirQuality'' (Rejected m)"
  by (simp add: checkAirQuality_def case_prod_beta fetch_fst)

lemma checkLocalNews_rejected:
  assumes "\<forall>u \<in> set (case newsFeeds (CONFIG w) of None \<Rightarrow> default_feeds | Some fs \<Rightarrow> fs).
             \<exists>m. upstream w (Feed u) = Reject m"
  shows "fst (checkLocalNews e la lo w) = check_result ''LocalNews'' True [] []"
  using assms
  by (simp add: checkLocalNews_def case_prod_beta Let_def surfaced_def scan_feeds_all_rejected)

lemma adapters_frame [simp]:
  "upstream (snd (checkNWSAlerts la lo w)) = upstream w"
  "upstream (snd (checkEarthquakes e la lo w)) = upstream w"
  "upstream (snd (checkAirQuality e la lo w)) = upstream w"
  "upstream (snd (checkLocalNews e la lo w)) = upstream w"
  "clock (snd (checkNWSAlerts la lo w)) = clock w"
  "clock (snd (checkEarthquakes e la lo w)) = clock w"
  "clock (snd (checkAirQuality e la lo w)) = clock w"
  "CONFIG (snd (checkNWSAlerts la lo w)) = CONFIG w"
  "CONFIG (snd (checkEarthquakes e la lo w)) = CONFIG w"
  "CONFIG (snd (checkAirQuality e la lo w)) = CONFIG w"
  by (simp_all add: checkNWSAlerts_def checkEarthquakes_def checkAirQuality_def
      checkLocalNews_def case_prod_beta Let_def)

lemma getTestOverride_frame [simp]:
  "upstream (snd (getTestOverride e w)) = upstream w"
  "clock (snd (getTestOverride e w)) = clock w"
  "CONFIG (snd (getTestOverride e w)) = CONFIG w"
  by (simp_all add: getTestOverride_def split: json_file.splits)

lemma getTestOverride_no_file:
  "overrideFile w = NoFile \<or> overrideFile w = NotJSON \<Longrightarrow> getTestOverride e w = (JNull, w)"
  by (auto simp: getTestOverride_def)

text \<open>With the whole network down and no override on file, the verdict is \<open>ALL_CLEAR\<close>.\<close>

lemma offline_all_clear:
  assumes down: "\<forall>url. \<exists>m. upstream w url = Reject m"
    and none: "overrideFile w = NoFile \<or> overrideFile w = NotJSON"
    and loc: "locationFile w = JSONText loc" "truthy (prop_of loc ''lat'')"
      "truthy (prop_of loc ''lon'')"
  shows "\<exists>r w'. runSafetyCheck e w = (Report r, w') \<and> status r = ALL_CLEAR"
proof -
  have here: "getLocation w = loc" "truthy loc"
    using location_file_truthy [OF loc(1,2)] by simp_all
  have rejected: "\<And>w2 url. upstream w2 = upstream w \<Longrightarrow> \<exists>m. upstream w2 url = Reject m"
    using down by simp
  have n: "\<And>w2. upstream w2 = upstream w \<Longrightarrow>
      prop_of (fst (checkNWSAlerts (prop_of loc ''lat'') (prop_of loc ''lon'') w2)) ''ok'' = JBool True"
    using rejected checkNWSAlerts_rejected by (metis prop_failed_open(1))
  have u: "\<And>w2. upstream w2 = upstream w \<Longrightarrow>
      prop_of (fst (checkEarthquakes e (prop_of loc ''lat'') (prop_of loc ''lon'') w2)) ''ok'' = JBool True"
    using rejected checkEarthquakes_rejected by (metis prop_failed_open(1))
  have a: "\<And>w2. upstream w2 = upstream w \<Longrightarrow>
      prop_of (fst (checkAirQuality e (prop_of loc ''lat'') (prop_of loc ''lon'') w2)) ''ok'' = JBool True"
    using rejected checkAirQuality_rejected by (metis prop_failed_open(1))
  have s: "\<And>w2. upstream w2 = upstream w \<Longrightarrow>
      prop_of (fst (checkLocalNews e (prop_of loc ''lat'') (prop_of loc ''lon'') w2)) ''ok'' = JBool True"
    using rejected checkLocalNews_rejected by (metis prop_check_result(1))
  show ?thesis
    using here loc(2,3) getTestOverride_no_file [OF none, of e]
    by (simp add: runSafetyCheck_def Let_def case_prod_beta apply_override_def n u a s)
qed

text \<open>The result of an adapter depends on the network, the clock and the configuration only.\<close>

lemma checkNWSAlerts_depends:
  "upstream w2 = upstream w \<Longrightarrow> fst (checkNWSAlerts la lo w2) = fst (checkNWSAlerts la lo w)"
  by (simp add: checkNWSAlerts_def case_prod_beta fetch_fst)

lemma checkEarthquakes_depends:
  "upstream w2 = upstream w \<Longrightarrow> clock w2 = clock w \<Longrightarrow> CONFIG w2 = CONFIG w \<Longrightarrow>
     fst (checkEarthquakes e la lo w2) = fst (checkEarthquakes e la lo w)"
  by (simp add: checkEarthquakes_def case_prod_beta fetch_fst)

lemma checkAirQuality_depends:
  "upstream w2 = upstream w \<Longrightarrow> fst (checkAirQuality e la lo w2) = fst (checkAirQuality e la lo w)"
  by (simp add: checkAirQuality_def case_prod_beta fetch_fst)

lemma checkLocalNews_depends:
  "upstream w2 = upstream w \<Longrightarrow> clock w2 = clock w \<Longrightarrow> CONFIG w2 = CONFIG w \<Longrightarrow>
     fst (checkLocalNews e la lo w2) = fst (checkLocalNews e la lo w)"
  by (simp add: checkLocalNews_def case_prod_beta Let_def scan_feeds_alerts
      cong: response.case_cong)

text \<open>
  The checks of a report: what each adapter returns on the network, behind the override.
\<close>

lemma runSafetyCheck_checks:
  assumes "truthy (getLocation w)" "truthy (prop_of (getLocation w) ''lat'')"
    "truthy (prop_of (getLocation w) ''lon'')"
  shows "\<exists>r w'. runSafetyCheck e w = (Report r, w') \<and>
    nws (checks r) = apply_override (fst (getTestOverride e w)) ''nws''
       (fst (checkNWSAlerts (prop_of (getLocation w) ''lat'') (prop_of (getLocation w) ''lon'') w)) \<and>
    usgs (checks r) = apply_override (fst (getTestOverride e w)) ''usgs''
       (fst (checkEarthquakes e (prop_of (getLocation w) ''lat'') (prop_of (getLocation w) ''lon'') w)) \<and>
    aqi (checks r) = apply_override (fst (getTestOverride e w)) ''aqi''
       (fst (checkAirQuality e (prop_of (getLocation w) ''lat'') (prop_of (getLocation w) ''lon'') w)) \<and>
    news (checks r) = apply_override (fst (getTestOverride e w)) ''news''
       (fst (checkLocalNews e (prop_of (getLocation w) ''lat'') (prop_of (getLocation w) ''lon'') w)) \<and>
    status r = (if truthy (prop_of (nws (checks r)) ''ok'') \<and>
                   truthy (prop_of (usgs (checks r)) ''ok'') \<and>
                   truthy (prop_of (aqi (checks r)) ''ok'') \<and>
                   truthy (prop_of (news (checks r)) ''ok'')
                then ALL_CLEAR else ALERTS_FOUND)"
proof -
  let ?la = "prop_of (getLocation w) ''lat''" and ?lo = "prop_of (getLocation w) ''lon''"
  let ?w1 = "snd (getTestOverride e w)"
  let ?w2 = "snd (checkNWSAlerts ?la ?lo ?w1)"
  let ?w3 = "snd (checkEarthquakes e ?la ?lo ?w2)"
  let ?w4 = "snd (checkAirQuality e ?la ?lo ?w3)"
  have n: "fst (checkNWSAlerts ?la ?lo ?w1) = fst (checkNWSAlerts ?la ?lo w)"
    by (rule checkNWSAlerts_depends) simp
  have u: "fst (checkEarthquakes e ?la ?lo ?w2) = fst (checkEarthquakes e ?la ?lo w)"
    by (rule checkEarthquakes_depends) simp_all
  have a: "fst (checkAirQuality e ?la ?lo ?w3) = fst (checkAirQuality e ?la ?lo w)"
    by (rule checkAirQuality_depends) simp
  have s: "fst (checkLocalNews e ?la ?lo ?w4) = fst (checkLocalNews e ?la ?lo w)"
    by (rule checkLocalNews_depends) simp_all
  show ?thesis
    using assms by (simp add: runSafetyCheck_def Let_def case_prod_beta n u a s)
qed


lemma apply_override_unnamed:
  "\<not> truthy (prop_of t k) \<Longrightarrow> apply_override t k x = x"
  by (simp add: apply_override_def)

lemma rejected_or_resolved: "(\<exists>m. net url = Reject m) \<or> (\<exists>b. net url = Resolve b)"
  by (cases "net url") auto

lemma checkLocalNews_alerts_need_feed:
  assumes "prop_of (fst (checkLocalNews e la lo w)) ''alerts'' \<noteq> JArr []"
  shows "\<exists>u \<in> set (case newsFeeds (CONFIG w) of None \<Rightarrow> default_feeds | Some fs \<Rightarrow> fs).
           \<exists>b. upstream w (Feed u) = Resolve b"
proof (rule ccontr)
  assume "\<not> ?thesis"
  then have "\<forall>u \<in> set (case newsFeeds (CONFIG w) of None \<Rightarrow> default_feeds | Some fs \<Rightarrow> fs).
             \<exists>m. upstream w (Feed u) = Reject m"
    using rejected_or_resolved [of "upstream w"] by blast
  then have "fst (checkLocalNews e la lo w) = check_result ''LocalNews'' True [] []"
    by (rule checkLocalNews_rejected)
  then show False
    using assms by simp
qed

text \<open>
  A run with a location. A source whose request is rejected and which the override does
  not name is clear in the report. A verdict of \<open>ALERTS_FOUND\<close> takes an override that
  names a source, or a source whose request resolved and whose check holds alerts.
\<close>

lemma partial_outage:
  assumes loc: "locationFile w = JSONText loc" "truthy (prop_of loc ''lat'')"
    "truthy (prop_of loc ''lon'')"
  shows "\<exists>r w'. runSafetyCheck e w = (Report r, w') \<and>
    (\<forall>m. upstream w (NWSAlertsActive (prop_of loc ''lat'') (prop_of loc ''lon'')) = Reject m \<and>
          \<not> truthy (prop_of (fst (getTestOverride e w)) ''nws'') \<longrightarrow>
          nws (checks r) = failed_open ''NWS'' (Rejected m)) \<and>
    (\<forall>m. upstream w (USGSQuery (prop_of loc ''lat'') (prop_of loc ''lon'') (radiusKm (CONFIG w))
                        (clock w - 86400000) None) = Reject m \<and>
          \<not> truthy (prop_of (fst (getTestOverride e w)) ''usgs'') \<longrightarrow>
          usgs (checks r) = failed_open ''USGS'' (Rejected m)) \<and>
    (\<forall>m. upstream w (OpenMeteoAirQuality (prop_of loc ''lat'') (prop_of loc ''lon'')) = Reject m \<and>
          \<not> truthy (prop_of (fst (getTestOverride e w)) ''aqi'') \<longrightarrow>
          aqi (checks r) = failed_open ''AirQuality'' (Rejected m)) \<and>
    ((\<forall>u \<in> set (case newsFeeds (CONFIG w) of None \<Rightarrow> default_feeds | Some fs \<Rightarrow> fs).
         \<exists>m. upstream w (Feed u) = Reject m) \<and>
       \<not> truthy (prop_of (fst (getTestOverride e w)) ''news'') \<longrightarrow>
       news (checks r) = check_result ''LocalNews'' True [] []) \<and>
    (status r = ALERTS_FOUND \<longrightarrow>
       (\<exists>k \<in> {''nws'', ''usgs'', ''aqi'', ''news''}.
          truthy (prop_of (fst (getTestOverride e w)) k)) \<or>
       ((\<exists>b. upstream w (NWSAlertsActive (prop_of loc ''lat'') (prop_of loc ''lon'')) = Resolve b) \<and>
          prop_of (nws (checks r)) ''alerts'' \<noteq> JArr []) \<or>
       ((\<exists>b. upstream w (USGSQuery (prop_of loc ''lat'') (prop_of loc ''lon'') (radiusKm (CONFIG w))
                        (clock w - 86400000) None) = Resolve b) \<and>
          prop_of (usgs (checks r)) ''alerts'' \<noteq> JArr []) \<or>
       ((\<exists>b. upstream w (OpenMeteoAirQuality (prop_of loc ''lat'') (prop_of loc ''lon'')) = Resolve b) \<and>
          prop_of (aqi (checks r)) ''alerts'' \<noteq> JArr []) \<or>
       ((\<exists>u \<in> set (case newsFeeds (CONFIG w) of None \<Rightarrow> default_feeds | Some fs \<Rightarrow> fs).
           \<exists>b. upstream w (Feed u) = Resolve b) \<and>
          prop_of (news (checks r)) ''alerts'' \<noteq> JArr []))"
proof -
  let ?la = "prop_of loc ''lat''" and ?lo = "prop_of loc ''lon''"
  let ?t = "fst (getTestOverride e w)"
  have here: "getLocation w = loc" "truthy loc"
    using location_file_truthy [OF loc(1,2)] by simp_all
  obtain r w' where run: "runSafetyCheck e w = (Report r, w')"
    and n: "nws (checks r) = apply_override ?t ''nws'' (fst (checkNWSAlerts ?la ?lo w))"
    and u: "usgs (checks r) = apply_override ?t ''usgs'' (fst (checkEarthquakes e ?la ?lo w))"
    and a: "aqi (checks r) = apply_override ?t ''aqi'' (fst (checkAirQuality e ?la ?lo w))"
    and s: "news (checks r) = apply_override ?t ''news'' (fst (checkLocalNews e ?la ?lo w))"
    and verdict: "status r = (if truthy (prop_of (nws (checks r)) ''ok'') \<and>
                   truthy (prop_of (usgs (checks r)) ''ok'') \<and>
                   truthy (prop_of (aqi (checks r)) ''ok'') \<and>
                   truthy (prop_of (news (checks r)) ''ok'')
                then ALL_CLEAR else ALERTS_FOUND)"
    using runSafetyCheck_checks [of w e] here loc(2,3) by auto
  have c1: "\<forall>m. upstream w (NWSAlertsActive ?la ?lo) = Reject m \<and> \<not> truthy (prop_of ?t ''nws'') \<longrightarrow>
          nws (checks r) = failed_open ''NWS'' (Rejected m)"
    using n by (simp add: apply_override_unnamed checkNWSAlerts_rejected)
  have c2: "\<forall>m. upstream w (USGSQuery ?la ?lo (radiusKm (CONFIG w)) (clock w - 86400000) None)
                  = Reject m \<and> \<not> truthy (prop_of ?t ''usgs'') \<longrightarrow>
          usgs (checks r) = failed_open ''USGS'' (Rejected m)"
    using u by (simp add: apply_override_unnamed checkEarthquakes_rejected)
  have c3: "\<forall>m. upstream w (OpenMeteoAirQuality ?la ?lo) = Reject m \<and> \<not> truthy (prop_of ?t ''aqi'') \<longrightarrow>
          aqi (checks r) = failed_open ''AirQuality'' (Rejected m)"
    using a by (simp add: apply_override_unnamed checkAirQuality_rejected)
  have c4: "(\<forall>u \<in> set (case newsFeeds (CONFIG w) of None \<Rightarrow> default_feeds | Some fs \<Rightarrow> fs).
         \<exists>m. upstream w (Feed u) = Reject m) \<and> \<not> truthy (prop_of ?t ''news'') \<longrightarrow>
       news (checks r) = check_result ''LocalNews'' True [] []"
    using s by (simp add: apply_override_unnamed checkLocalNews_rejected)
  have c5: "status r = ALERTS_FOUND \<longrightarrow>
       (\<exists>k \<in> {''nws'', ''usgs'', ''aqi'', ''news''}. truthy (prop_of ?t k)) \<or>
       ((\<exists>b. upstream w (NWSAlertsActive ?la ?lo) = Resolve b) \<and>
          prop_of (nws (checks r)) ''alerts'' \<noteq> JArr []) \<or>
       ((\<exists>b. upstream w (USGSQuery ?la ?lo (radiusKm (CONFIG w)) (clock w - 86400000) None)
              = Resolve b) \<and>
          prop_of (usgs (checks r)) ''alerts'' \<noteq> JArr []) \<or>
       ((\<exists>b. upstream w (OpenMeteoAirQuality ?la ?lo) = Resolve b) \<and>
          prop_of (aqi (checks r)) ''alerts'' \<noteq> JArr []) \<or>
       ((\<exists>u \<in> set (case newsFeeds (CONFIG w) of None \<Rightarrow> default_feeds | Some fs \<Rightarrow> fs).
           \<exists>b. upstream w (Feed u) = Resolve b) \<and>
          prop_of (news (checks r)) ''alerts'' \<noteq> JArr [])"
  proof (intro impI)
    assume found: "status r = ALERTS_FOUND"
    show "(\<exists>k \<in> {''nws'', ''usgs'', ''aqi'', ''news''}. truthy (prop_of ?t k)) \<or>
       ((\<exists>b. upstream w (NWSAlertsActive ?la ?lo) = Resolve b) \<and>
          prop_of (nws (checks r)) ''alerts'' \<noteq> JArr []) \<or>
       ((\<exists>b. upstream w (USGSQuery ?la ?lo (radiusKm (CONFIG w)) (clock w - 86400000) None)
              = Resolve b) \<and>
          prop_of (usgs (checks r)) ''alerts'' \<noteq> JArr []) \<or>
       ((\<exists>b. upstream w (OpenMeteoAirQuality ?la ?lo) = Resolve b) \<and>
          prop_of (aqi (checks r)) ''alerts'' \<noteq> JArr []) \<or>
       ((\<exists>u \<in> set (case newsFeeds (CONFIG w) of None \<Rightarrow> default_feeds | Some fs \<Rightarrow> fs).
           \<exists>b. upstream w (Feed u) = Resolve b) \<and>
          prop_of (news (checks r)) ''alerts'' \<noteq> JArr [])"
    proof (cases "\<exists>k \<in> {''nws'', ''usgs'', ''aqi'', ''news''}. truthy (prop_of ?t k)")
      case True
      then show ?thesis by blast
    next
      case False
      then have real: "nws (checks r) = fst (checkNWSAlerts ?la ?lo w)"
        "usgs (checks r) = fst (checkEarthquakes e ?la ?lo w)"
        "aqi (checks r) = fst (checkAirQuality e ?la ?lo w)"
        "news (checks r) = fst (checkLocalNews e ?la ?lo w)"
        using n u a s by (simp_all add: apply_override_unnamed)
      have flags: "prop_of (nws (checks r)) ''ok'' = JBool (prop_of (nws (checks r)) ''alerts'' = JArr [])"
        "prop_of (usgs (checks r)) ''ok'' = JBool (prop_of (usgs (checks r)) ''alerts'' = JArr [])"
        "prop_of (aqi (checks r)) ''ok'' = JBool (prop_of (aqi (checks r)) ''alerts'' = JArr [])"
        "prop_of (news (checks r)) ''ok'' = JBool (prop_of (news (checks r)) ''alerts'' = JArr [])"
        using real checkNWSAlerts_consistent [of ?la ?lo w] checkEarthquakes_consistent [of e ?la ?lo w]
          checkAirQuality_consistent [of e ?la ?lo w] checkLocalNews_consistent [of e ?la ?lo w]
        by simp_all
      have some: "prop_of (nws (checks r)) ''alerts'' \<noteq> JArr [] \<or>
          prop_of (usgs (checks r)) ''alerts'' \<noteq> JArr [] \<or>
          prop_of (aqi (checks r)) ''alerts'' \<noteq> JArr [] \<or>
          prop_of (news (checks r)) ''alerts'' \<noteq> JArr []"
        using found verdict flags by (auto split: if_splits)
      have rn: "prop_of (nws (checks r)) ''alerts'' \<noteq> JArr [] \<Longrightarrow>
          \<exists>b. upstream w (NWSAlertsActive ?la ?lo) = Resolve b"
        using real(1) checkNWSAlerts_rejected [of w ?la ?lo]
          rejected_or_resolved [of "upstream w" "NWSAlertsActive ?la ?lo"] by auto
      have ru: "prop_of (usgs (checks r)) ''alerts'' \<noteq> JArr [] \<Longrightarrow>
          \<exists>b. upstream w (USGSQuery ?la ?lo (radiusKm (CONFIG w)) (clock w - 86400000) None)
                = Resolve b"
        using real(2) checkEarthquakes_rejected [of w ?la ?lo _ e]
          rejected_or_resolved [of "upstream w"
            "USGSQuery ?la ?lo (radiusKm (CONFIG w)) (clock w - 86400000) None"] by auto
      have ra: "prop_of (aqi (checks r)) ''alerts'' \<noteq> JArr [] \<Longrightarrow>
          \<exists>b. upstream w (OpenMeteoAirQuality ?la ?lo) = Resolve b"
        using real(3) checkAirQuality_rejected [of w ?la ?lo _ e]
          rejected_or_resolved [of "upstream w" "OpenMeteoAirQuality ?la ?lo"] by auto
      have rs: "prop_of (news (checks r)) ''alerts'' \<noteq> JArr [] \<Longrightarrow>
          \<exists>u \<in> set (case newsFeeds (CONFIG w) of None \<Rightarrow> default_feeds | Some fs \<Rightarrow> fs).
             \<exists>b. upstream w (Feed u) = Resolve b"
        using real(4) checkLocalNews_alerts_need_feed [of e ?la ?lo w] by simp
      show ?thesis
        using some rn ru ra rs by blast
    qed
  qed
  show ?thesis
    by (rule exI [of _ r], rule exI [of _ w']) (intro conjI run c1 c2 c3 c4 c5)
qed

text \<open>
  C2. An adapter whose fetch is rejected (an error, a timeout) returns \<open>ok = true\<close> and
  no alerts: the three API adapters with the message of the rejection as \<open>error\<close>, the
  news adapter, when each of its feeds is rejected, without one. With every request
  rejected and no override on file, the verdict of the run is \<open>ALL_CLEAR\<close>. In every
  run with a location, whatever the other requests do: a source whose request is
  rejected and which the override (\<open>getTestOverride\<close>) does not name is clear in the
  report, and the verdict is \<open>ALERTS_FOUND\<close> only if the override names a source or the
  request of some source resolved and its check holds alerts.
\<close>

theorem fail_open:
  "(upstream w (NWSAlertsActive la lo) = Reject m \<longrightarrow>
      fst (checkNWSAlerts la lo w)
        = JObj [(''source'', JStr ''NWS''), (''ok'', JBool True),
                (''error'', JStr m), (''alerts'', JArr [])]) \<and>
   (upstream w (USGSQuery la lo (radiusKm (CONFIG w)) (clock w - 86400000) None) = Reject m \<longrightarrow>
      fst (checkEarthquakes e la lo w)
        = JObj [(''source'', JStr ''USGS''), (''ok'', JBool True),
                (''error'', JStr m), (''alerts'', JArr [])]) \<and>
   (upstream w (OpenMeteoAirQuality la lo) = Reject m \<longrightarrow>
      fst (checkAirQuality e la lo w)
        = JObj [(''source'', JStr ''AirQuality''), (''ok'', JBool True),
                (''error'', JStr m), (''alerts'', JArr [])]) \<and>
   ((\<forall>u \<in> set (case newsFeeds (CONFIG w) of None \<Rightarrow> default_feeds | Some fs \<Rightarrow> fs).
       \<exists>m'. upstream w (Feed u) = Reject m') \<longrightarrow>
      fst (checkLocalNews e la lo w)
        = JObj [(''source'', JStr ''LocalNews''), (''ok'', JBool True), (''alerts'', JArr [])]) \<and>
   ((\<forall>url. \<exists>m'. upstream w url = Reject m') \<and>
    (overrideFile w = NoFile \<or> overrideFile w = NotJSON) \<and>
    locationFile w = JSONText loc \<and> truthy (prop_of loc ''lat'') \<and> truthy (prop_of loc ''lon'') \<longrightarrow>
      (\<exists>r w'. runSafetyCheck e w = (Report r, w') \<and> status r = ALL_CLEAR)) \<and>
   (locationFile w = JSONText loc \<and> truthy (prop_of loc ''lat'') \<and> truthy (prop_of loc ''lon'') \<longrightarrow>
      (\<exists>r w'. runSafetyCheck e w = (Report r, w') \<and>
        (\<forall>m. upstream w (NWSAlertsActive (prop_of loc ''lat'') (prop_of loc ''lon'')) = Reject m \<and>
              \<not> truthy (prop_of (fst (getTestOverride e w)) ''nws'') \<longrightarrow>
              nws (checks r)
                = JObj [(''source'', JStr ''NWS''), (''ok'', JBool True),
                        (''error'', JStr m), (''alerts'', JArr [])]) \<and>
        (\<forall>m. upstream w (USGSQuery (prop_of loc ''lat'') (prop_of loc ''lon'')
                            (radiusKm (CONFIG w)) (clock w - 86400000) None) = Reject m \<and>
              \<not> truthy (prop_of (fst (getTestOverride e w)) ''usgs'') \<longrightarrow>
              usgs (checks r)
                = JObj [(''source'', JStr ''USGS''), (''ok'', JBool True),
                        (''error'', JStr m), (''alerts'', JArr [])]) \<and>
        (\<forall>m. upstream w (OpenMeteoAirQuality (prop_of loc ''lat'') (prop_of loc ''lon'')) = Reject m \<and>
              \<not> truthy (prop_of (fst (getTestOverride e w)) ''aqi'') \<longrightarrow>
              aqi (checks r)
                = JObj [(''source'', JStr ''AirQuality''), (''ok'', JBool True),
                        (''error'', JStr m), (''alerts'', JArr [])]) \<and>
        ((\<forall>u \<in> set (case newsFeeds (CONFIG w) of None \<Rightarrow> default_feeds | Some fs \<Rightarrow> fs).
             \<exists>m. upstream w (Feed u) = Reject m) \<and>
           \<not> truthy (prop_of (fst (getTestOverride e w)) ''news'') \<longrightarrow>
           news (checks r)
             = JObj [(''source'', JStr ''LocalNews''), (''ok'', JBool True), (''alerts'', JArr [])]) \<and>
        (status r = ALERTS_FOUND \<longrightarrow>
           (\<exists>k \<in> {''nws'', ''usgs'', ''aqi'', ''news''}.
              truthy (prop_of (fst (getTestOverride e w)) k)) \<or>
           ((\<exists>b. upstream w (NWSAlertsActive (prop_of loc ''lat'') (prop_of loc ''lon'')) = Resolve b) \<and>
              prop_of (nws (checks r)) ''alerts'' \<noteq> JArr []) \<or>
           ((\<exists>b. upstream w (USGSQuery (prop_of loc ''lat'') (prop_of loc ''lon'')
                            (radiusKm (CONFIG w)) (clock w - 86400000) None) = Resolve b) \<and>
              prop_of (usgs (checks r)) ''alerts'' \<noteq> JArr []) \<or>
           ((\<exists>b. upstream w (OpenMeteoAirQuality (prop_of loc ''lat'') (prop_of loc ''lon''))
                  = Resolve b) \<and>
              prop_of (aqi (checks r)) ''alerts'' \<noteq> JArr []) \<or>
           ((\<exists>u \<in> set (case newsFeeds (CONFIG w) of None \<Rightarrow> default_feeds | Some fs \<Rightarrow> fs).
               \<exists>b. upstream w (Feed u) = Resolve b) \<and>
              prop_of (news (checks r)) ''alerts'' \<noteq> JArr []))))"
proof -
  have adapters:
    "upstream w (NWSAlertsActive la lo) = Reject m \<longrightarrow>
      fst (checkNWSAlerts la lo w)
        = JObj [(''source'', JStr ''NWS''), (''ok'', JBool True),
                (''error'', JStr m), (''alerts'', JArr [])]"
    "upstream w (USGSQuery la lo (radiusKm (CONFIG w)) (clock w - 86400000) None) = Reject m \<longrightarrow>
      fst (checkEarthquakes e la lo w)
        = JObj [(''source'', JStr ''USGS''), (''ok'', JBool True),
                (''error'', JStr m), (''alerts'', JArr [])]"
    "upstream w (OpenMeteoAirQuality la lo) = Reject m \<longrightarrow>
      fst (checkAirQuality e la lo w)
        = JObj [(''source'', JStr ''AirQuality''), (''ok'', JBool True),
                (''error'', JStr m), (''alerts'', JArr [])]"
    "(\<forall>u \<in> set (case newsFeeds (CONFIG w) of None \<Rightarrow> default_feeds | Some fs \<Rightarrow> fs).
       \<exists>m'. upstream w (Feed u) = Reject m') \<longrightarrow>
      fst (checkLocalNews e la lo w)
        = JObj [(''source'', JStr ''LocalNews''), (''ok'', JBool True), (''alerts'', JArr [])]"
    using checkNWSAlerts_rejected [of w la lo m] checkEarthquakes_rejected [of w la lo m e]
      checkAirQuality_rejected [of w la lo m e] checkLocalNews_rejected [of w e la lo]
    by (simp_all add: failed_open_def check_result_def)
  have down: "(\<forall>url. \<exists>m'. upstream w url = Reject m') \<and>
    (overrideFile w = NoFile \<or> overrideFile w = NotJSON) \<and>
    locationFile w = JSONText loc \<and> truthy (prop_of loc ''lat'') \<and> truthy (prop_of loc ''lon'') \<longrightarrow>
      (\<exists>r w'. runSafetyCheck e w = (Report r, w') \<and> status r = ALL_CLEAR)"
    using offline_all_clear [of w loc e] by simp
  have partial: "locationFile w = JSONText loc \<and> truthy (prop_of loc ''lat'') \<and>
      truthy (prop_of loc ''lon'') \<longrightarrow>
      (\<exists>r w'. runSafetyCheck e w = (Report r, w') \<and>
        (\<forall>m. upstream w (NWSAlertsActive (prop_of loc ''lat'') (prop_of loc ''lon'')) = Reject m \<and>
              \<not> truthy (prop_of (fst (getTestOverride e w)) ''nws'') \<longrightarrow>
              nws (checks r)
                = JObj [(''source'', JStr ''NWS''), (''ok'', JBool True),
                        (''error'', JStr m), (''alerts'', JArr [])]) \<and>
        (\<forall>m. upstream w (USGSQuery (prop_of loc ''lat'') (prop_of loc ''lon'')
                            (radiusKm (CONFIG w)) (clock w - 86400000) None) = Reject m \<and>
              \<not> truthy (prop_of (fst (getTestOverride e w)) ''usgs'') \<longrightarrow>
              usgs (checks r)
                = JObj [(''source'', JStr ''USGS''), (''ok'', JBool True),
                        (''error'', JStr m), (''alerts'', JArr [])]) \<and>
        (\<forall>m. upstream w (OpenMeteoAirQuality (prop_of loc ''lat'') (prop_of loc ''lon'')) = Reject m \<and>
              \<not> truthy (prop_of (fst (getTestOverride e w)) ''aqi'') \<longrightarrow>
              aqi (checks r)
                = JObj [(''source'', JStr ''AirQuality''), (''ok'', JBool True),
                        (''error'', JStr m), (''alerts'', JArr [])]) \<and>
        ((\<forall>u \<in> set (case newsFeeds (CONFIG w) of None \<Rightarrow> default_feeds | Some fs \<Rightarrow> fs).
             \<exists>m. upstream w (Feed u) = Reject m) \<and>
           \<not> truthy (prop_of (fst (getTestOverride e w)) ''news'') \<longrightarrow>
           news (checks r)
             = JObj [(''source'', JStr ''LocalNews''), (''ok'', JBool True), (''alerts'', JArr [])]) \<and>
        (status r = ALERTS_FOUND \<longrightarrow>
           (\<exists>k \<in> {''nws'', ''usgs'', ''aqi'', ''news''}.
              truthy (prop_of (fst (getTestOverride e w)) k)) \<or>
           ((\<exists>b. upstream w (NWSAlertsActive (prop_of loc ''lat'') (prop_of loc ''lon'')) = Resolve b) \<and>
              prop_of (nws (checks r)) ''alerts'' \<noteq> JArr []) \<or>
           ((\<exists>b. upstream w (USGSQuery (prop_of loc ''lat'') (prop_of loc ''lon'')
                            (radiusKm (CONFIG w)) (clock w - 86400000) None) = Resolve b) \<and>
              prop_of (usgs (checks r)) ''alerts'' \<noteq> JArr []) \<or>
           ((\<exists>b. upstream w (OpenMeteoAirQuality (prop_of loc ''lat'') (prop_of loc ''lon''))
                  = Resolve b) \<and>
              prop_of (aqi (checks r)) ''alerts'' \<noteq> JArr []) \<or>
           ((\<exists>u \<in> set (case newsFeeds (CONFIG w) of None \<Rightarrow> default_feeds | Some fs \<Rightarrow> fs).
               \<exists>b. upstream w (Feed u) = Resolve b) \<and>
              prop_of (news (checks r)) ''alerts'' \<noteq> JArr [])))"
    using partial_outage [of w loc e] by (intro impI) (simp add: failed_open_def check_result_def)
  show ?thesis
    by (intro conjI adapters down partial)
qed

lemmas sample_run_defs = runSafetyCheck_def getLocation_def getTestOverride_def apply_override_def
  checkNWSAlerts_def checkEarthquakes_def checkAirQuality_def checkLocalNews_def
  fetch_def failed_open_def check_result_def surfaced_def radiusKm_def
  JSON_parse_def features_of_def air_quality_def get_prop_def optional_prop_def js_gt_def
  sample_world_def weather_down_def default_config_def default_feeds_def seattle_def
  List.map_filter_simps Let_def

text \<open>
  The network is down: every check fails open. Only the weather request times out: the
  weather check is clear, and the verdict follows the air quality, \<open>ALL_CLEAR\<close> at
  index 42 and \<open>ALERTS_FOUND\<close> at index 175.
\<close>

theorem fail_open_witness:
  "upstream (sample_world (JSONText seattle) NoFile 1769725200000)
       (NWSAlertsActive (JNum 47.6062) (JNum (- 122.3321))) = Reject ''Timeout'' \<and>
   fst (checkNWSAlerts (JNum 47.6062) (JNum (- 122.3321))
          (sample_world (JSONText seattle) NoFile 1769725200000))
     = JObj [(''source'', JStr ''NWS''), (''ok'', JBool True),
             (''error'', JStr ''Timeout''), (''alerts'', JArr [])] \<and>
   fst (checkLocalNews sample_engine (JNum 47.6062) (JNum (- 122.3321))
          (sample_world (JSONText seattle) NoFile 1769725200000))
     = JObj [(''source'', JStr ''LocalNews''), (''ok'', JBool True), (''alerts'', JArr [])] \<and>
   (\<exists>r w'. runSafetyCheck sample_engine (sample_world (JSONText seattle) NoFile 1769725200000)
              = (Report r, w') \<and> status r = ALL_CLEAR) \<and>
   (\<exists>r w'. runSafetyCheck sample_engine
              ((sample_world (JSONText seattle) NoFile 1769725200000)\<lparr>upstream := weather_down 42\<rparr>)
              = (Report r, w') \<and>
            nws (checks r) = JObj [(''source'', JStr ''NWS''), (''ok'', JBool True),
                                   (''error'', JStr ''Timeout''), (''alerts'', JArr [])] \<and>
            prop_of (aqi (checks r)) ''alerts'' = JArr [] \<and>
            status r = ALL_CLEAR) \<and>
   (\<exists>r w'. runSafetyCheck sample_engine
              ((sample_world (JSONText seattle) NoFile 1769725200000)\<lparr>upstream := weather_down 175\<rparr>)
              = (Report r, w') \<and>
            nws (checks r) = JObj [(''source'', JStr ''NWS''), (''ok'', JBool True),
                                   (''error'', JStr ''Timeout''), (''alerts'', JArr [])] \<and>
            prop_of (aqi (checks r)) ''alerts'' \<noteq> JArr [] \<and>
            status r = ALERTS_FOUND)"
proof -
  let ?w = "sample_world (JSONText seattle) NoFile 1769725200000"
  have total:
    "upstream ?w (NWSAlertsActive (JNum 47.6062) (JNum (- 122.3321))) = Reject ''Timeout''"
    "fst (checkNWSAlerts (JNum 47.6062) (JNum (- 122.3321)) ?w)
       = JObj [(''source'', JStr ''NWS''), (''ok'', JBool True),
               (''error'', JStr ''Timeout''), (''alerts'', JArr [])]"
    "fst (checkLocalNews sample_engine (JNum 47.6062) (JNum (- 122.3321)) ?w)
       = JObj [(''source'', JStr ''LocalNews''), (''ok'', JBool True), (''alerts'', JArr [])]"
    "\<exists>r w'. runSafetyCheck sample_engine ?w = (Report r, w') \<and> status r = ALL_CLEAR"
    using fail_open [where w = ?w and la = "JNum 47.6062" and lo = "JNum (- 122.3321)"
        and m = "''Timeout''" and e = sample_engine and loc = seattle]
    by (simp_all add: sample_world_def offline_def seattle_def default_config_def)
  have loc: "prop_of seattle ''lat'' = JNum 47.6062" "prop_of seattle ''lon'' = JNum (- 122.3321)"
    by (simp_all add: seattle_def)
  have failed: "\<exists>r w'. runSafetyCheck sample_engine (?w\<lparr>upstream := weather_down q\<rparr>) = (Report r, w') \<and>
            nws (checks r) = JObj [(''source'', JStr ''NWS''), (''ok'', JBool True),
                                   (''error'', JStr ''Timeout''), (''alerts'', JArr [])]" for q
    using fail_open [where w = "?w\<lparr>upstream := weather_down q\<rparr>" and e = sample_engine
        and loc = seattle]
    by (simp add: loc sample_world_def weather_down_def getTestOverride_def) blast
  obtain r1 w1 where calm: "runSafetyCheck sample_engine (?w\<lparr>upstream := weather_down 42\<rparr>) = (Report r1, w1)"
      "prop_of (aqi (checks r1)) ''alerts'' = JArr []" "status r1 = ALL_CLEAR"
    by (simp add: sample_run_defs)
  obtain r2 w2 where smoky: "runSafetyCheck sample_engine (?w\<lparr>upstream := weather_down 175\<rparr>) = (Report r2, w2)"
      "prop_of (aqi (checks r2)) ''alerts'' \<noteq> JArr []" "status r2 = ALERTS_FOUND"
    by (simp add: sample_run_defs)
  have n1: "nws (checks r1) = JObj [(''source'', JStr ''NWS''), (''ok'', JBool True),
                                   (''error'', JStr ''Timeout''), (''alerts'', JArr [])]"
    using failed [of 42] calm(1) by auto
  have n2: "nws (checks r2) = JObj [(''source'', JStr ''NWS''), (''ok'', JBool True),
                                   (''error'', JStr ''Timeout''), (''alerts'', JArr [])]"
    using failed [of 175] smoky(1) by auto
  have c42: "\<exists>r w'. runSafetyCheck sample_engine (?w\<lparr>upstream := weather_down 42\<rparr>) = (Report r, w') \<and>
            nws (checks r) = JObj [(''source'', JStr ''NWS''), (''ok'', JBool True),
                                   (''error'', JStr ''Timeout''), (''alerts'', JArr [])] \<and>
            prop_of (aqi (checks r)) ''alerts'' = JArr [] \<and>
            status r = ALL_CLEAR"
    by (rule exI [of _ r1], rule exI [of _ w1]) (intro conjI calm n1)
  have c175: "\<exists>r w'. runSafetyCheck sample_engine (?w\<lparr>upstream := weather_down 175\<rparr>) = (Report r, w') \<and>
            nws (checks r) = JObj [(''source'', JStr ''NWS''), (''ok'', JBool True),
                                   (''error'', JStr ''Timeout''), (''alerts'', JArr [])] \<and>
            prop_of (aqi (checks r)) ''alerts'' \<noteq> JArr [] \<and>
            status r = ALERTS_FOUND"
    by (rule exI [of _ r2], rule exI [of _ w2]) (intro conjI smoky n2)
  show ?thesis
    by (intro conjI total c42 c175)
qed

subsection \<open>Test overrides\<close>

text \<open>An override is expired when its \<open>_expiresAt\<close> is set and is a date before now.\<close>

lemma getTestOverride_live:
  assumes "overrideFile w = JSONText ov" "\<not> nullish ov"
    and "\<not> (truthy (prop_of ov ''_expiresAt'') \<and>
            (\<exists>t. Date_getTime e (prop_of ov ''_expiresAt'') = Some t \<and> t < clock w))"
  shows "getTestOverride e w = (ov, w)"
  using assms by (auto simp: getTestOverride_def split: option.splits)

lemma getTestOverride_expired:
  assumes "overrideFile w = JSONText ov" "truthy (prop_of ov ''_expiresAt'')"
    and "Date_getTime e (prop_of ov ''_expiresAt'') = Some t" "t < clock w"
  shows "getTestOverride e w = (JNull, w\<lparr>overrideFile := NoFile\<rparr>)"
proof -
  have "\<not> nullish ov"
    using assms(2) by (cases ov) auto
  then show ?thesis
    using assms by (simp add: getTestOverride_def)
qed

lemma truthy_prop_object: "truthy (prop_of v k) \<Longrightarrow> truthy v \<and> \<not> nullish v"
  by (cases v) auto

lemma runSafetyCheck_expired:
  assumes "overrideFile w = JSONText ov" "truthy (prop_of ov ''_expiresAt'')"
    and "Date_getTime e (prop_of ov ''_expiresAt'') = Some t" "t < clock w"
    and "truthy (getLocation w)" "truthy (prop_of (getLocation w) ''lat'')"
      "truthy (prop_of (getLocation w) ''lon'')"
  shows "runSafetyCheck e w = runSafetyCheck e (w\<lparr>overrideFile := NoFile\<rparr>)"
proof -
  have gone: "getTestOverride e (w\<lparr>overrideFile := NoFile\<rparr>) = (JNull, w\<lparr>overrideFile := NoFile\<rparr>)"
    by (simp add: getTestOverride_def)
  have same: "getLocation (w\<lparr>overrideFile := NoFile\<rparr>) = getLocation w"
    by (simp add: getLocation_def)
  show ?thesis
    using getTestOverride_expired [OF assms(1-4)] assms(5-7)
    by (simp add: runSafetyCheck_def gone same)
qed

text \<open>
  C6. In a run with a location: an override on file that is not expired replaces the
  check of each source it names (a truthy value under \<open>nws\<close>, \<open>usgs\<close>, \<open>aqi\<close> or
  \<open>news\<close>) by its own value, whatever the network returns; an override that is expired
  (its \<open>_expiresAt\<close> is set and lies before now) is not applied, and the run is the run
  of the same world without an override file.
\<close>

theorem override_precedence:
  assumes "locationFile w = JSONText loc" "truthy (prop_of loc ''lat'')"
    "truthy (prop_of loc ''lon'')"
    and "overrideFile w = JSONText ov"
  shows "(\<not> (truthy (prop_of ov ''_expiresAt'') \<and>
             (\<exists>t. Date_getTime e (prop_of ov ''_expiresAt'') = Some t \<and> t < clock w)) \<longrightarrow>
            (\<exists>r w'. runSafetyCheck e w = (Report r, w') \<and>
               (truthy (prop_of ov ''nws'') \<longrightarrow> nws (checks r) = prop_of ov ''nws'') \<and>
               (truthy (prop_of ov ''usgs'') \<longrightarrow> usgs (checks r) = prop_of ov ''usgs'') \<and>
               (truthy (prop_of ov ''aqi'') \<longrightarrow> aqi (checks r) = prop_of ov ''aqi'') \<and>
               (truthy (prop_of ov ''news'') \<longrightarrow> news (checks r) = prop_of ov ''news''))) \<and>
         (truthy (prop_of ov ''_expiresAt'') \<and>
            (\<exists>t. Date_getTime e (prop_of ov ''_expiresAt'') = Some t \<and> t < clock w) \<longrightarrow>
            runSafetyCheck e w = runSafetyCheck e (w\<lparr>overrideFile := NoFile\<rparr>))"
proof (intro conjI impI)
  assume live: "\<not> (truthy (prop_of ov ''_expiresAt'') \<and>
             (\<exists>t. Date_getTime e (prop_of ov ''_expiresAt'') = Some t \<and> t < clock w))"
  have here: "getLocation w = loc" "truthy loc"
    using location_file_truthy [OF assms(1,2)] by simp_all
  obtain r w' n u a s where run: "runSafetyCheck e w = (Report r, w')"
    and checks: "nws (checks r) = apply_override (fst (getTestOverride e w)) ''nws'' n"
      "usgs (checks r) = apply_override (fst (getTestOverride e w)) ''usgs'' u"
      "aqi (checks r) = apply_override (fst (getTestOverride e w)) ''aqi'' a"
      "news (checks r) = apply_override (fst (getTestOverride e w)) ''news'' s"
    using runSafetyCheck_report [of w e] here assms(2,3) by auto
  have named: "truthy (prop_of ov k) \<Longrightarrow> apply_override (fst (getTestOverride e w)) k x = prop_of ov k"
    for k x
    using getTestOverride_live [OF assms(4) _ live] truthy_prop_object [of ov k]
    by (simp add: apply_override_def)
  show "\<exists>r w'. runSafetyCheck e w = (Report r, w') \<and>
               (truthy (prop_of ov ''nws'') \<longrightarrow> nws (checks r) = prop_of ov ''nws'') \<and>
               (truthy (prop_of ov ''usgs'') \<longrightarrow> usgs (checks r) = prop_of ov ''usgs'') \<and>
               (truthy (prop_of ov ''aqi'') \<longrightarrow> aqi (checks r) = prop_of ov ''aqi'') \<and>
               (truthy (prop_of ov ''news'') \<longrightarrow> news (checks r) = prop_of ov ''news'')"
    using run checks named by auto
next
  assume expired: "truthy (prop_of ov ''_expiresAt'') \<and>
            (\<exists>t. Date_getTime e (prop_of ov ''_expiresAt'') = Some t \<and> t < clock w)"
  have here: "getLocation w = loc" "truthy loc"
    using location_file_truthy [OF assms(1,2)] by simp_all
  show "runSafetyCheck e w = runSafetyCheck e (w\<lparr>overrideFile := NoFile\<rparr>)"
    using expired runSafetyCheck_expired [OF assms(4), of e] here assms(2,3) by auto
qed

text \<open>
  The earthquake scenario, injected at 22:00 to expire at 23:00: at 22:20 the report
  holds the scenario as its earthquake check although the query itself times out; at
  23:01 the run is that of a world without the file, and the verdict is \<open>ALL_CLEAR\<close>.
\<close>

theorem override_precedence_witness:
  "Date_getTime sample_engine (prop_of earthquake_override ''_expiresAt'') = Some 1769727600000 \<and>
   truthy (prop_of earthquake_override ''usgs'') \<and>
   (\<exists>r w'. runSafetyCheck sample_engine
              (sample_world (JSONText seattle) (JSONText earthquake_override) 1769725200000)
            = (Report r, w') \<and> usgs (checks r) = earthquake_scenario) \<and>
   runSafetyCheck sample_engine
       (sample_world (JSONText seattle) (JSONText earthquake_override) 1769727660000)
     = runSafetyCheck sample_engine (sample_world (JSONText seattle) NoFile 1769727660000) \<and>
   (\<exists>r w'. runSafetyCheck sample_engine
              (sample_world (JSONText seattle) (JSONText earthquake_override) 1769727660000)
            = (Report r, w') \<and> status r = ALL_CLEAR \<and> overrideFile w' = NoFile)"
proof -
  have expires: "Date_getTime sample_engine (prop_of earthquake_override ''_expiresAt'')
      = Some 1769727600000"
    and named: "truthy (prop_of earthquake_override ''usgs'')"
      "prop_of earthquake_override ''usgs'' = earthquake_scenario"
      "truthy (prop_of earthquake_override ''_expiresAt'')"
    by (simp_all add: earthquake_override_def earthquake_scenario_def sample_engine_def
        sample_getTime_def)
  have loc: "truthy (prop_of seattle ''lat'')" "truthy (prop_of seattle ''lon'')"
    by (simp_all add: seattle_def)
  have early: "\<exists>r w'. runSafetyCheck sample_engine
              (sample_world (JSONText seattle) (JSONText earthquake_override) 1769725200000)
            = (Report r, w') \<and> usgs (checks r) = earthquake_scenario"
    using override_precedence [where e = sample_engine and loc = seattle
        and ov = earthquake_override
        and w = "sample_world (JSONText seattle) (JSONText earthquake_override) 1769725200000"]
      loc expires named
    by (auto simp: sample_world_def)
  have late: "runSafetyCheck sample_engine
       (sample_world (JSONText seattle) (JSONText earthquake_override) 1769727660000)
     = runSafetyCheck sample_engine (sample_world (JSONText seattle) NoFile 1769727660000)"
    using override_precedence [where e = sample_engine and loc = seattle
        and ov = earthquake_override
        and w = "sample_world (JSONText seattle) (JSONText earthquake_override) 1769727660000"]
      loc expires named
    by (simp add: sample_world_def)
  have clear: "\<exists>r w'. runSafetyCheck sample_engine (sample_world (JSONText seattle) NoFile 1769727660000)
            = (Report r, w') \<and> status r = ALL_CLEAR \<and> overrideFile w' = NoFile"
    by (simp add: runSafetyCheck_def getLocation_def getTestOverride_def apply_override_def
        checkNWSAlerts_def checkEarthquakes_def checkAirQuality_def checkLocalNews_def
        fetch_def failed_open_def check_result_def surfaced_def radiusKm_def
        sample_world_def offline_def default_config_def default_feeds_def seattle_def Let_def)
  show ?thesis
    using expires named(1) early late clear by simp
qed

subsection \<open>Deduplication of news alerts\<close>

text \<open>
  Of the alerts with one key, the filter keeps the first, unless the key has been seen.
\<close>

lemma with_key_dedupe:
  "with_key e k (dedupe e seen alerts) =
     (if k \<in> seen then []
      else (case List.find (\<lambda>a. dedupe_key e a = k) alerts of None \<Rightarrow> [] | Some a \<Rightarrow> [a]))"
  by (induction alerts arbitrary: seen) (auto simp: with_key_def)

lemma dedupe_keys_fresh: "dedupe_key e ` set (dedupe e seen alerts) \<inter> seen = {}"
  by (induction alerts arbitrary: seen) auto

lemma dedupe_keys_distinct: "distinct (map (dedupe_key e) (dedupe e seen alerts))"
proof (induction alerts arbitrary: seen)
  case Nil
  show ?case by simp
next
  case (Cons a alerts)
  show ?case
    using Cons.IH dedupe_keys_fresh [of e "insert (dedupe_key e a) seen" alerts] by auto
qed

lemma dedupe_subseq: "subseq (dedupe e seen alerts) alerts"
  by (induction alerts arbitrary: seen) auto

lemma distinct_within_singleton:
  assumes "distinct ys" "set ys \<subseteq> {a}"
  shows "ys = (if a \<in> set ys then [a] else [])"
proof (cases ys)
  case Nil
  then show ?thesis by simp
next
  case (Cons y rest)
  then have "y = a" "set rest \<subseteq> {a}" "a \<notin> set rest"
    using assms by auto
  then have "rest = []"
    by (cases rest) auto
  then show ?thesis
    using Cons \<open>y = a\<close> by simp
qed

lemma with_key_surfaced:
  "with_key e k (surfaced e alerts) =
     (case List.find (\<lambda>a. dedupe_key e a = k) alerts of
        None \<Rightarrow> []
      | Some a \<Rightarrow> if a \<in> set (surfaced e alerts) then [a] else [])"
proof (cases "List.find (\<lambda>a. dedupe_key e a = k) alerts")
  case None
  then have "with_key e k (dedupe e {} alerts) = []"
    by (simp add: with_key_dedupe)
  then have "\<forall>a \<in> set (dedupe e {} alerts). dedupe_key e a \<noteq> k"
    by (simp add: with_key_def filter_empty_conv)
  then have "with_key e k (surfaced e alerts) = []"
    by (auto simp: with_key_def surfaced_def filter_empty_conv dest: in_set_takeD)
  then show ?thesis
    using None by simp
next
  case (Some a)
  then have key: "dedupe_key e a = k"
    by (auto simp: find_Some_iff)
  have one: "with_key e k (dedupe e {} alerts) = [a]"
    using Some by (simp add: with_key_dedupe)
  have "distinct (dedupe e {} alerts)"
    using dedupe_keys_distinct [of e "{}" alerts] by (simp add: distinct_map)
  then have d: "distinct (with_key e k (surfaced e alerts))"
    by (simp add: with_key_def surfaced_def)
  have "set (with_key e k (surfaced e alerts)) \<subseteq> set (with_key e k (dedupe e {} alerts))"
    by (auto simp: with_key_def surfaced_def dest: in_set_takeD)
  then have s: "set (with_key e k (surfaced e alerts)) \<subseteq> {a}"
    using one by simp
  have "a \<in> set (with_key e k (surfaced e alerts)) \<longleftrightarrow> a \<in> set (surfaced e alerts)"
    using key by (simp add: with_key_def)
  then show ?thesis
    using distinct_within_singleton [OF d s] Some by simp
qed

text \<open>The alerts of the busy day are those the feed loop builds from its seven stories.\<close>

lemma busy_day_lowered:
  "ascii_lower ''Wildfire near Seattle '' = ''wildfire near seattle ''"
  "ascii_lower ''Flash flood in King County '' = ''flash flood in king county ''"
  "ascii_lower ''Gas leak in Seattle '' = ''gas leak in seattle ''"
  "ascii_lower ''Lockdown at Seattle school '' = ''lockdown at seattle school ''"
  "ascii_lower ''Power outage in Seattle '' = ''power outage in seattle ''"
  "ascii_lower ''Road closed in Seattle '' = ''road closed in seattle ''"
  "ascii_lower ''ROAD CLOSED IN SEATTLE '' = ''road closed in seattle ''"
  by (simp_all add: ascii_lower_def lower_char_def)

lemma busy_day_survive:
  "List.map_filter
     (item_alert sample_engine [''seattle'', ''king county'', ''puget sound'', ''washington'']
        1769725200000 ''https://www.king5.com/feeds/syndication/rss/news/local'')
     [story ''Wildfire near Seattle'', story ''Flash flood in King County'',
      story ''Gas leak in Seattle'', story ''Lockdown at Seattle school'',
      story ''Power outage in Seattle'', story ''Road closed in Seattle'',
      story ''ROAD CLOSED IN SEATTLE'']
   = busy_day"
  by (simp add: List.map_filter_simps item_alert_def story_def headline_def busy_day_def
      sample_engine_def busy_day_lowered concerningKeywords_def excludeKeywords_def
      sample_getTime_def round_hours_def feed_host_def Let_def)

text \<open>
  C7, as the claim states it, fails: on a day with five other stories before it, a story
  reported twice yields no surfaced alert, not one.
\<close>

theorem dedupe_exactly_one_counterexample:
  "length (with_key sample_engine ''road closed in seattle'' busy_day) = 2 \<and>
   length (dedupe sample_engine {} busy_day) = 6 \<and>
   length (surfaced sample_engine busy_day) = 5 \<and>
   with_key sample_engine ''road closed in seattle'' (surfaced sample_engine busy_day) = [] \<and>
   length (with_key sample_engine ''road closed in seattle'' (surfaced sample_engine busy_day)) \<noteq> 1"
proof -
  have keys:
    "dedupe_key sample_engine (headline ''Wildfire near Seattle'') = ''wildfire near seattle''"
    "dedupe_key sample_engine (headline ''Flash flood in King County'')
       = ''flash flood in king county''"
    "dedupe_key sample_engine (headline ''Gas leak in Seattle'') = ''gas leak in seattle''"
    "dedupe_key sample_engine (headline ''Lockdown at Seattle school'')
       = ''lockdown at seattle school''"
    "dedupe_key sample_engine (headline ''Power outage in Seattle'') = ''power outage in seattle''"
    "dedupe_key sample_engine (headline ''Road closed in Seattle'') = ''road closed in seattle''"
    "dedupe_key sample_engine (headline ''ROAD CLOSED IN SEATTLE'') = ''road closed in seattle''"
    by (simp_all add: headline_def dedupe_key_def sample_engine_def ascii_lower_def lower_char_def)
  have twice: "length (with_key sample_engine ''road closed in seattle'' busy_day) = 2"
    by (simp add: busy_day_def with_key_def keys)
  have unique: "dedupe sample_engine {} busy_day =
     [headline ''Wildfire near Seattle'', headline ''Flash flood in King County'',
      headline ''Gas leak in Seattle'', headline ''Lockdown at Seattle school'',
      headline ''Power outage in Seattle'', headline ''Road closed in Seattle'']"
    by (simp add: busy_day_def keys)
  have gone: "with_key sample_engine ''road closed in seattle'' (surfaced sample_engine busy_day) = []"
    by (simp add: surfaced_def unique with_key_def keys)
  show ?thesis
    using twice gone by (simp add: surfaced_def unique)
qed

text \<open>
  C7, amended. Whatever the engine's \<open>toLowerCase\<close> is: among the deduplicated alerts,
  those whose titles share a key (the lower-cased first 50 characters) are exactly one,
  the first in the list, whatever feed it came from. The surfaced output is the first five deduplicated alerts: it holds at
  most five alerts, with distinct keys, in the order of the list; for each key it
  holds the first alert with that key or none, and it holds that alert whenever there
  are at most five distinct keys.
\<close>

theorem dedupe_first_wins:
  "with_key e k (dedupe e {} alerts) =
     (case List.find (\<lambda>a. dedupe_key e a = k) alerts of None \<Rightarrow> [] | Some a \<Rightarrow> [a]) \<and>
   with_key e k (surfaced e alerts) =
     (case List.find (\<lambda>a. dedupe_key e a = k) alerts of
        None \<Rightarrow> []
      | Some a \<Rightarrow> if a \<in> set (surfaced e alerts) then [a] else []) \<and>
   length (with_key e k (surfaced e alerts)) \<le> 1 \<and>
   (length (dedupe e {} alerts) \<le> 5 \<longrightarrow>
      with_key e k (surfaced e alerts) = with_key e k (dedupe e {} alerts)) \<and>
   surfaced e alerts = take 5 (dedupe e {} alerts) \<and>
   length (surfaced e alerts) \<le> 5 \<and>
   distinct (map (dedupe_key e) (surfaced e alerts)) \<and>
   subseq (surfaced e alerts) alerts"
proof -
  have "subseq (take 5 (dedupe e {} alerts)) (dedupe e {} alerts)"
    by (metis append_take_drop_id prefix_def prefix_imp_subseq)
  then have order: "subseq (surfaced e alerts) alerts"
    using dedupe_subseq [of e "{}" alerts] by (auto simp: surfaced_def intro: subseq_order.trans)
  have keys: "distinct (map (dedupe_key e) (surfaced e alerts))"
    using dedupe_keys_distinct [of e "{}" alerts]
    by (simp add: surfaced_def take_map [symmetric] distinct_take)
  show ?thesis
    using order keys with_key_surfaced [of e k alerts]
    by (auto simp: with_key_dedupe surfaced_def split: option.splits)
qed

text \<open>
  Two items of the first default feed report one story, their titles alike in the
  first 50 characters up to case and different after them. Both survive the filter;
  one alert is surfaced, the first, and it is what the news adapter returns.
\<close>

lemma lowered:
  "ascii_lower ''Shots fired near Pike Place Market in downtown Seattle, police say ''
     = ''shots fired near pike place market in downtown seattle, police say ''"
  "ascii_lower ''SHOTS FIRED NEAR PIKE PLACE MARKET IN DOWNTOWN SEATTLE, POLICE SAY!! ''
     = ''shots fired near pike place market in downtown seattle, police say!! ''"
  "ascii_lower ''Shots fired near Pike Place Market in downtown Sea''
     = ''shots fired near pike place market in downtown sea''"
  "ascii_lower ''SHOTS FIRED NEAR PIKE PLACE MARKET IN DOWNTOWN SEA''
     = ''shots fired near pike place market in downtown sea''"
  by (simp_all add: ascii_lower_def lower_char_def)

lemma reported_twice_survive:
  "item_alert sample_engine [''seattle'', ''king county'', ''puget sound'', ''washington'']
     1769725200000 ''https://www.king5.com/feeds/syndication/rss/news/local''
     (story ''Shots fired near Pike Place Market in downtown Seattle, police say'')
   = Some (headline ''Shots fired near Pike Place Market in downtown Seattle, police say'')"
  "item_alert sample_engine [''seattle'', ''king county'', ''puget sound'', ''washington'']
     1769725200000 ''https://www.king5.com/feeds/syndication/rss/news/local''
     (story ''SHOTS FIRED NEAR PIKE PLACE MARKET IN DOWNTOWN SEATTLE, POLICE SAY!!'')
   = Some (headline ''SHOTS FIRED NEAR PIKE PLACE MARKET IN DOWNTOWN SEATTLE, POLICE SAY!!'')"
  by (simp_all add: item_alert_def story_def headline_def sample_engine_def lowered
      concerningKeywords_def excludeKeywords_def sample_getTime_def round_hours_def
      feed_host_def Let_def)

lemma reported_twice_keys:
  "dedupe_key sample_engine
     (headline ''Shots fired near Pike Place Market in downtown Seattle, police say'')
     = ''shots fired near pike place market in downtown sea''"
  "dedupe_key sample_engine
     (headline ''SHOTS FIRED NEAR PIKE PLACE MARKET IN DOWNTOWN SEATTLE, POLICE SAY!!'')
     = ''shots fired near pike place market in downtown sea''"
  by (simp_all add: dedupe_key_def headline_def sample_engine_def lowered)

lemma reported_twice_scanned:
  "fst (scan_feeds sample_engine [''seattle'', ''king county'', ''puget sound'', ''washington'']
          default_feeds
          ((sample_world (JSONText seattle) NoFile 1769725200000)\<lparr>upstream := twice_on_king5\<rparr>))
     = reported_twice"
  by (simp add: default_feeds_def fetch_def twice_on_king5_def sample_world_def
      List.map_filter_simps reported_twice_survive reported_twice_def case_prod_beta Let_def)

theorem dedupe_first_wins_witness:
  "fst (scan_feeds sample_engine [''seattle'', ''king county'', ''puget sound'', ''washington'']
          default_feeds
          ((sample_world (JSONText seattle) NoFile 1769725200000)\<lparr>upstream := twice_on_king5\<rparr>))
     = reported_twice \<and>
   length (with_key sample_engine ''shots fired near pike place market in downtown sea''
             reported_twice) = 2 \<and>
   length (dedupe sample_engine {} reported_twice) \<le> 5 \<and>
   with_key sample_engine ''shots fired near pike place market in downtown sea''
       (surfaced sample_engine reported_twice)
     = [headline ''Shots fired near Pike Place Market in downtown Seattle, police say''] \<and>
   fst (checkLocalNews sample_engine (JNum 47.6062) (JNum (- 122.3321))
          ((sample_world (JSONText seattle) NoFile 1769725200000)\<lparr>upstream := twice_on_king5\<rparr>))
     = check_result ''LocalNews'' False
         [news_alert_json
            (headline ''Shots fired near Pike Place Market in downtown Seattle, police say'')] []"
proof -
  have unique: "dedupe sample_engine {} reported_twice
      = [headline ''Shots fired near Pike Place Market in downtown Seattle, police say'']"
    by (simp add: reported_twice_def reported_twice_keys)
  have both: "length (with_key sample_engine ''shots fired near pike place market in downtown sea''
             reported_twice) = 2"
    by (simp add: reported_twice_def with_key_def reported_twice_keys)
  have "with_key sample_engine ''shots fired near pike place market in downtown sea''
          (surfaced sample_engine reported_twice)
      = with_key sample_engine ''shots fired near pike place market in downtown sea''
          (dedupe sample_engine {} reported_twice)"
    using dedupe_first_wins [where e = sample_engine
        and k = "''shots fired near pike place market in downtown sea''"
        and alerts = reported_twice]
    by (simp add: unique)
  then have one: "with_key sample_engine ''shots fired near pike place market in downtown sea''
          (surfaced sample_engine reported_twice)
      = [headline ''Shots fired near Pike Place Market in downtown Seattle, police say'']"
    by (simp add: unique with_key_def reported_twice_keys)
  have config: "CONFIG ((sample_world (JSONText seattle) NoFile 1769725200000)
                  \<lparr>upstream := twice_on_king5\<rparr>) = default_config"
    by (simp add: sample_world_def)
  have news: "fst (checkLocalNews sample_engine (JNum 47.6062) (JNum (- 122.3321))
          ((sample_world (JSONText seattle) NoFile 1769725200000)\<lparr>upstream := twice_on_king5\<rparr>))
     = check_result ''LocalNews'' False
         [news_alert_json
            (headline ''Shots fired near Pike Place Market in downtown Seattle, police say'')] []"
    by (simp add: checkLocalNews_def case_prod_beta Let_def config default_config_def
        reported_twice_scanned surfaced_def unique)
  show ?thesis
    using reported_twice_scanned both unique one news by simp
qed

end
